theory Spec2Isabelle
  imports Main "HOL-Library.Word" "HOL-Library.Sublist"
begin

section \<open>Terraform attribute values\<close>

text \<open>
  The expand functions of \<^verbatim>\<open>app_spec.go\<close> read Terraform's dynamic attribute data:
  values of Go's \<^verbatim>\<open>interface{}\<close>, whose dynamic type is tested by a type assertion.
  \<open>tfval\<close> is the universe of those values: nil, \<^verbatim>\<open>string\<close>, \<^verbatim>\<open>int\<close>, \<^verbatim>\<open>bool\<close>,
  a list, a \<^verbatim>\<open>*schema.Set\<close> and a \<^verbatim>\<open>map[string]interface{}\<close>. \<open>VEngine\<close> is a
  value of the named string type \<^verbatim>\<open>godo.AppDatabaseSpecEngine\<close>, which
  \<^verbatim>\<open>flattenAppSpecDatabases\<close> stores without converting it to \<^verbatim>\<open>string\<close>.

  Go's \<^verbatim>\<open>int\<close> is taken at 64 bits (the size on every 64-bit target), so the
  conversions \<^verbatim>\<open>int64(x)\<close> and \<^verbatim>\<open>int(x)\<close> are sign-preserving casts between words
  of the same length.

  A list value stands for both \<^verbatim>\<open>[]interface{}\<close> and \<^verbatim>\<open>[]map[string]interface{}\<close>: the two
  differ in the static element type only, and the flattened lists are handed to the
  expand functions through Terraform's own reader, which presents every list as
  \<^verbatim>\<open>[]interface{}\<close>.

  A \<^verbatim>\<open>*schema.Set\<close> is represented by the list its \<^verbatim>\<open>List()\<close> method returns: the items,
  each once, in the order of their hash codes.
\<close>

datatype tfval =
    VNil
  | VString string
  | VInt "64 word"
  | VBool bool
  | VEngine string
  | VList "tfval list"
  | VSet "tfval list"
  | VMap "string \<Rightarrow> tfval option"

type_synonym attrs = "string \<Rightarrow> tfval option"

text \<open>Indexing a Go map with a key it does not hold yields the nil interface value.\<close>

definition index :: "attrs \<Rightarrow> string \<Rightarrow> tfval" where
  "index m k = (case m k of None \<Rightarrow> VNil | Some v \<Rightarrow> v)"

subsection \<open>Panics\<close>

text \<open>
  A failed type assertion \<^verbatim>\<open>x.(T)\<close> and an index out of range both panic. The expand
  functions return the panic as a value.
\<close>

datatype panic = TypeAssertion | IndexOutOfRange

definition andThen :: "panic + 'a \<Rightarrow> ('a \<Rightarrow> panic + 'b) \<Rightarrow> panic + 'b" where
  "andThen r f = (case r of Inl e \<Rightarrow> Inl e | Inr v \<Rightarrow> f v)"

fun assertString :: "tfval \<Rightarrow> panic + string" where
  "assertString (VString s) = Inr s"
| "assertString _ = Inl TypeAssertion"

fun assertInt :: "tfval \<Rightarrow> panic + 64 word" where
  "assertInt (VInt i) = Inr i"
| "assertInt _ = Inl TypeAssertion"

fun assertBool :: "tfval \<Rightarrow> panic + bool" where
  "assertBool (VBool b) = Inr b"
| "assertBool _ = Inl TypeAssertion"

fun assertList :: "tfval \<Rightarrow> panic + tfval list" where
  "assertList (VList xs) = Inr xs"
| "assertList _ = Inl TypeAssertion"

fun assertSet :: "tfval \<Rightarrow> panic + tfval list" where
  "assertSet (VSet xs) = Inr xs"
| "assertSet _ = Inl TypeAssertion"

fun assertMap :: "tfval \<Rightarrow> panic + attrs" where
  "assertMap (VMap m) = Inr m"
| "assertMap _ = Inl TypeAssertion"

text \<open>\<^verbatim>\<open>config[0]\<close>: a run-time panic on the empty list.\<close>

fun index0 :: "tfval list \<Rightarrow> panic + tfval" where
  "index0 [] = Inl IndexOutOfRange"
| "index0 (c # _) = Inr c"

text \<open>
  The loop \<^verbatim>\<open>for _, raw := range config { ...; xs = append(xs, x) }\<close> of every expand
  function: the body \<open>f\<close> builds one element or panics, and the element is appended.
\<close>

fun rangeAppend :: "('a \<Rightarrow> panic + 'b) \<Rightarrow> 'a list \<Rightarrow> 'b list \<Rightarrow> panic + 'b list" where
  "rangeAppend f [] acc = Inr acc"
| "rangeAppend f (raw # rest) acc = andThen (f raw) (\<lambda>x. rangeAppend f rest (acc @ [x]))"

text \<open>
  The loop \<^verbatim>\<open>for i, s := range xs { ...; result[i] = r }\<close> of the flatten functions, on a
  result allocated with \<^verbatim>\<open>make(..., len(xs))\<close>.
\<close>

fun rangeAssign :: "('a \<Rightarrow> 'b) \<Rightarrow> 'a list \<Rightarrow> nat \<Rightarrow> 'b list \<Rightarrow> 'b list" where
  "rangeAssign f [] i result = result"
| "rangeAssign f (s # rest) i result = rangeAssign f rest (Suc i) (result[i := f s])"

subsection \<open>Slices and sets\<close>

text \<open>
  A Go slice is nil or holds a list; \<^verbatim>\<open>len\<close> of the nil slice is 0 and \<^verbatim>\<open>range\<close> over it
  runs no iteration. The slices of the godo structs hold pointers to structs; the API
  client yields no nil element, and the elements are modelled as the structs themselves.
\<close>

type_synonym 'a slice = "'a list option"

definition len :: "'a slice \<Rightarrow> nat" where
  "len s = (case s of None \<Rightarrow> 0 | Some xs \<Rightarrow> length xs)"

definition elems :: "'a slice \<Rightarrow> 'a list" where
  "elems s = (case s of None \<Rightarrow> [] | Some xs \<Rightarrow> xs)"

text \<open>
  Modelled from the spec: \<^verbatim>\<open>schema.Set\<close>, with \<^verbatim>\<open>NewSet\<close>, \<^verbatim>\<open>Add\<close> and \<^verbatim>\<open>List\<close>, is a type of
  the Terraform plugin SDK and not of this repository; the mapping treats it as a set of
  items, duplicates collapsed. \<^verbatim>\<open>schema.NewSet(hash, []interface{}{})\<close> is the empty set.
  \<^verbatim>\<open>Add\<close> leaves a set that holds the item unchanged; otherwise the item takes the place
  its hash code gives it among the items present. The hash functions
  (\<^verbatim>\<open>schema.HashString\<close>, \<^verbatim>\<open>schema.HashResource\<close>) belong to the SDK as well: the place is
  a parameter \<open>h\<close>, any function of the item and the items present, and distinct items
  are taken to have distinct hash codes.
\<close>

definition NewSet :: "tfval list" where
  "NewSet = []"

definition Add :: "(tfval \<Rightarrow> tfval list \<Rightarrow> nat) \<Rightarrow> tfval \<Rightarrow> tfval list \<Rightarrow> tfval list" where
  "Add h item s =
     (if item \<in> set s then s else take (h item s) s @ item # drop (h item s) s)"

text \<open>
  \<^verbatim>\<open>int64(x)\<close> of an \<^verbatim>\<open>int\<close> and \<^verbatim>\<open>int(x)\<close> of an \<^verbatim>\<open>int64\<close>.
\<close>

definition int64_of_int :: "64 word \<Rightarrow> 64 word" where
  "int64_of_int x = scast x"

definition int_of_int64 :: "64 word \<Rightarrow> 64 word" where
  "int_of_int64 x = scast x"

section \<open>The godo structs\<close>

text \<open>
  Modelled from the spec: the structs are declared by the godo client, outside this
  repository; each is the record of the fields \<^verbatim>\<open>app_spec.go\<close> reads and writes. The
  named string types \<^verbatim>\<open>AppVariableScope\<close>, \<^verbatim>\<open>AppVariableType\<close> and
  \<^verbatim>\<open>AppDatabaseSpecEngine\<close> are strings; a pointer field is an option.
\<close>

record AppDomainSpec =
  Domain :: string

record GitHubSourceSpec =
  gh_Repo :: string
  gh_Branch :: string
  gh_DeployOnPush :: bool

record GitSourceSpec =
  git_Branch :: string
  git_RepoCloneURL :: string

record AppVariableDefinition =
  env_Value :: string
  env_Scope :: string
  env_Key :: string
  env_Type :: string

record AppServiceSpecHealthCheck =
  hc_Path :: string

record AppRouteSpec =
  route_Path :: string

record AppServiceSpec =
  svc_Name :: string
  svc_RunCommand :: string
  svc_BuildCommand :: string
  svc_HTTPPort :: "64 word"
  svc_DockerfilePath :: string
  svc_Envs :: "AppVariableDefinition slice"
  svc_InstanceSizeSlug :: string
  svc_InstanceCount :: "64 word"
  svc_SourceDir :: string
  svc_EnvironmentSlug :: string
  svc_GitHub :: "GitHubSourceSpec option"
  svc_Git :: "GitSourceSpec option"
  svc_Routes :: "AppRouteSpec slice"
  svc_HealthCheck :: "AppServiceSpecHealthCheck option"

record AppStaticSiteSpec =
  site_Name :: string
  site_BuildCommand :: string
  site_DockerfilePath :: string
  site_Envs :: "AppVariableDefinition slice"
  site_SourceDir :: string
  site_OutputDir :: string
  site_IndexDocument :: string
  site_ErrorDocument :: string
  site_EnvironmentSlug :: string
  site_GitHub :: "GitHubSourceSpec option"
  site_Git :: "GitSourceSpec option"
  site_Routes :: "AppRouteSpec slice"

record AppWorkerSpec =
  wrk_Name :: string
  wrk_RunCommand :: string
  wrk_BuildCommand :: string
  wrk_DockerfilePath :: string
  wrk_Envs :: "AppVariableDefinition slice"
  wrk_InstanceSizeSlug :: string
  wrk_InstanceCount :: "64 word"
  wrk_SourceDir :: string
  wrk_EnvironmentSlug :: string
  wrk_GitHub :: "GitHubSourceSpec option"
  wrk_Git :: "GitSourceSpec option"

record AppDatabaseSpec =
  db_Name :: string
  db_Engine :: string
  db_Version :: string
  db_Production :: bool
  db_ClusterName :: string
  db_DBName :: string
  db_DBUser :: string

record AppSpec =
  Name :: string
  Region :: string
  Domains :: "AppDomainSpec slice"
  Services :: "AppServiceSpec slice"
  StaticSites :: "AppStaticSiteSpec slice"
  Workers :: "AppWorkerSpec slice"
  Databases :: "AppDatabaseSpec slice"

section \<open>Expand and flatten\<close>

subsection \<open>Domains\<close>

definition expandAppDomainSpec_body :: "tfval \<Rightarrow> panic + AppDomainSpec" where
  "expandAppDomainSpec_body rawDomain =
     andThen (assertString rawDomain) (\<lambda>d. Inr \<lparr>Domain = d\<rparr>)"

definition expandAppDomainSpec :: "tfval list \<Rightarrow> panic + AppDomainSpec slice" where
  "expandAppDomainSpec config =
     andThen (rangeAppend expandAppDomainSpec_body config []) (\<lambda>appDomains. Inr (Some appDomains))"

definition flattenAppDomainSpec ::
  "(tfval \<Rightarrow> tfval list \<Rightarrow> nat) \<Rightarrow> AppDomainSpec slice \<Rightarrow> tfval list" where
  "flattenAppDomainSpec hashString spec =
     (case spec of
        None \<Rightarrow> NewSet
      | Some ds \<Rightarrow> fold (\<lambda>domain result. Add hashString (VString (Domain domain)) result) ds NewSet)"

subsection \<open>Git and GitHub sources\<close>

definition expandAppGitHubSourceSpec :: "tfval list \<Rightarrow> panic + GitHubSourceSpec" where
  "expandAppGitHubSourceSpec config =
     andThen (index0 config) (\<lambda>c0.
     andThen (assertMap c0) (\<lambda>gitHubSourceConfig.
     andThen (assertString (index gitHubSourceConfig ''repo'')) (\<lambda>repo.
     andThen (assertString (index gitHubSourceConfig ''branch'')) (\<lambda>branch.
     andThen (assertBool (index gitHubSourceConfig ''deploy_on_push'')) (\<lambda>deployOnPush.
     Inr \<lparr>gh_Repo = repo, gh_Branch = branch, gh_DeployOnPush = deployOnPush\<rparr>)))))"

definition flattenAppGitHubSourceSpec :: "GitHubSourceSpec option \<Rightarrow> tfval list" where
  "flattenAppGitHubSourceSpec spec =
     (case spec of
        None \<Rightarrow> []
      | Some g \<Rightarrow>
          [] @ [VMap (Map.empty(''repo'' \<mapsto> VString (gh_Repo g),
                                ''branch'' \<mapsto> VString (gh_Branch g),
                                ''deploy_on_push'' \<mapsto> VBool (gh_DeployOnPush g)))])"

definition expandAppGitSourceSpec :: "tfval list \<Rightarrow> panic + GitSourceSpec" where
  "expandAppGitSourceSpec config =
     andThen (index0 config) (\<lambda>c0.
     andThen (assertMap c0) (\<lambda>gitSourceConfig.
     andThen (assertString (index gitSourceConfig ''branch'')) (\<lambda>branch.
     andThen (assertString (index gitSourceConfig ''repo_clone_url'')) (\<lambda>repoCloneURL.
     Inr \<lparr>git_Branch = branch, git_RepoCloneURL = repoCloneURL\<rparr>))))"

definition flattenAppGitSourceSpec :: "GitSourceSpec option \<Rightarrow> tfval list" where
  "flattenAppGitSourceSpec spec =
     (case spec of
        None \<Rightarrow> []
      | Some g \<Rightarrow>
          [] @ [VMap (Map.empty(''branch'' \<mapsto> VString (git_Branch g),
                                ''repo_clone_url'' \<mapsto> VString (git_RepoCloneURL g)))])"

subsection \<open>Environment variables\<close>

definition expandAppEnvs_body :: "tfval \<Rightarrow> panic + AppVariableDefinition" where
  "expandAppEnvs_body rawEnv =
     andThen (assertMap rawEnv) (\<lambda>env.
     andThen (assertString (index env ''value'')) (\<lambda>val.
     andThen (assertString (index env ''scope'')) (\<lambda>scope.
     andThen (assertString (index env ''key'')) (\<lambda>key.
     andThen (assertString (index env ''type'')) (\<lambda>type.
     Inr \<lparr>env_Value = val, env_Scope = scope, env_Key = key, env_Type = type\<rparr>)))))"

definition expandAppEnvs :: "tfval list \<Rightarrow> panic + AppVariableDefinition slice" where
  "expandAppEnvs config =
     andThen (rangeAppend expandAppEnvs_body config []) (\<lambda>appEnvs. Inr (Some appEnvs))"

definition flattenAppEnvs_body :: "AppVariableDefinition \<Rightarrow> tfval" where
  "flattenAppEnvs_body env =
     VMap (Map.empty(''value'' \<mapsto> VString (env_Value env),
                     ''scope'' \<mapsto> VString (env_Scope env),
                     ''key'' \<mapsto> VString (env_Key env),
                     ''type'' \<mapsto> VString (env_Type env)))"

definition flattenAppEnvs ::
  "(tfval \<Rightarrow> tfval list \<Rightarrow> nat) \<Rightarrow> AppVariableDefinition slice \<Rightarrow> tfval list" where
  "flattenAppEnvs hashResource appEnvs =
     (case appEnvs of
        None \<Rightarrow> NewSet
      | Some es \<Rightarrow> fold (\<lambda>env result. Add hashResource (flattenAppEnvs_body env) result) es NewSet)"

subsection \<open>Health checks and routes\<close>

definition expandAppHealthCheck :: "tfval list \<Rightarrow> panic + AppServiceSpecHealthCheck" where
  "expandAppHealthCheck config =
     andThen (index0 config) (\<lambda>c0.
     andThen (assertMap c0) (\<lambda>healthCheckConfig.
     andThen (assertString (index healthCheckConfig ''path'')) (\<lambda>path.
     Inr \<lparr>hc_Path = path\<rparr>)))"

definition flattenAppHealthCheck :: "AppServiceSpecHealthCheck option \<Rightarrow> tfval list" where
  "flattenAppHealthCheck check =
     (case check of
        None \<Rightarrow> []
      | Some c \<Rightarrow> [] @ [VMap (Map.empty(''path'' \<mapsto> VString (hc_Path c)))])"

definition expandAppRoutes_body :: "tfval \<Rightarrow> panic + AppRouteSpec" where
  "expandAppRoutes_body rawRoute =
     andThen (assertMap rawRoute) (\<lambda>route.
     andThen (assertString (index route ''path'')) (\<lambda>path.
     Inr \<lparr>route_Path = path\<rparr>))"

definition expandAppRoutes :: "tfval list \<Rightarrow> panic + AppRouteSpec slice" where
  "expandAppRoutes config =
     andThen (rangeAppend expandAppRoutes_body config []) (\<lambda>appRoutes. Inr (Some appRoutes))"

definition flattenAppRoutes :: "AppRouteSpec slice \<Rightarrow> tfval list" where
  "flattenAppRoutes routes =
     (case routes of
        None \<Rightarrow> []
      | Some rs \<Rightarrow>
          fold (\<lambda>route result. result @ [VMap (Map.empty(''path'' \<mapsto> VString (route_Path route)))])
            rs [])"

subsection \<open>Services\<close>

definition expandAppSpecServices_body :: "tfval \<Rightarrow> panic + AppServiceSpec" where
  "expandAppSpecServices_body rawService =
     andThen (assertMap rawService) (\<lambda>service.
     andThen (assertString (index service ''name'')) (\<lambda>name.
     andThen (assertString (index service ''run_command'')) (\<lambda>runCommand.
     andThen (assertString (index service ''build_command'')) (\<lambda>buildCommand.
     andThen (assertInt (index service ''http_port'')) (\<lambda>httpPort.
     andThen (assertString (index service ''dockerfile_path'')) (\<lambda>dockerfilePath.
     andThen (assertSet (index service ''env'')) (\<lambda>envSet.
     andThen (expandAppEnvs envSet) (\<lambda>envs.
     andThen (assertString (index service ''instance_size_slug'')) (\<lambda>instanceSizeSlug.
     andThen (assertInt (index service ''instance_count'')) (\<lambda>instanceCount.
     andThen (assertString (index service ''source_dir'')) (\<lambda>sourceDir.
     andThen (assertString (index service ''environment_slug'')) (\<lambda>environmentSlug.
     andThen (Inr \<lparr>svc_Name = name, svc_RunCommand = runCommand,
                    svc_BuildCommand = buildCommand, svc_HTTPPort = int64_of_int httpPort,
                    svc_DockerfilePath = dockerfilePath, svc_Envs = envs,
                    svc_InstanceSizeSlug = instanceSizeSlug,
                    svc_InstanceCount = int64_of_int instanceCount,
                    svc_SourceDir = sourceDir, svc_EnvironmentSlug = environmentSlug,
                    svc_GitHub = None, svc_Git = None, svc_Routes = None,
                    svc_HealthCheck = None\<rparr>) (\<lambda>s.
     andThen (assertList (index service ''github'')) (\<lambda>github.
     andThen (if length github > 0
              then andThen (expandAppGitHubSourceSpec github) (\<lambda>g. Inr (s\<lparr>svc_GitHub := Some g\<rparr>))
              else Inr s) (\<lambda>s.
     andThen (assertList (index service ''git'')) (\<lambda>git.
     andThen (if length git > 0
              then andThen (expandAppGitSourceSpec git) (\<lambda>g. Inr (s\<lparr>svc_Git := Some g\<rparr>))
              else Inr s) (\<lambda>s.
     andThen (assertList (index service ''routes'')) (\<lambda>routes.
     andThen (if length routes > 0
              then andThen (expandAppRoutes routes) (\<lambda>r. Inr (s\<lparr>svc_Routes := r\<rparr>))
              else Inr s) (\<lambda>s.
     andThen (assertList (index service ''health_check'')) (\<lambda>checks.
     andThen (if length checks > 0
              then andThen (expandAppHealthCheck checks) (\<lambda>c. Inr (s\<lparr>svc_HealthCheck := Some c\<rparr>))
              else Inr s) (\<lambda>s.
     Inr s)))))))))))))))))))))"

definition expandAppSpecServices :: "tfval list \<Rightarrow> panic + AppServiceSpec slice" where
  "expandAppSpecServices config =
     andThen (rangeAppend expandAppSpecServices_body config []) (\<lambda>appServices. Inr (Some appServices))"

definition flattenAppSpecServices_body ::
  "(tfval \<Rightarrow> tfval list \<Rightarrow> nat) \<Rightarrow> AppServiceSpec \<Rightarrow> attrs" where
  "flattenAppSpecServices_body hashResource s =
     Map.empty(''name'' \<mapsto> VString (svc_Name s),
               ''run_command'' \<mapsto> VString (svc_RunCommand s),
               ''build_command'' \<mapsto> VString (svc_BuildCommand s),
               ''github'' \<mapsto> VList (flattenAppGitHubSourceSpec (svc_GitHub s)),
               ''git'' \<mapsto> VList (flattenAppGitSourceSpec (svc_Git s)),
               ''http_port'' \<mapsto> VInt (int_of_int64 (svc_HTTPPort s)),
               ''routes'' \<mapsto> VList (flattenAppRoutes (svc_Routes s)),
               ''dockerfile_path'' \<mapsto> VString (svc_DockerfilePath s),
               ''env'' \<mapsto> VSet (flattenAppEnvs hashResource (svc_Envs s)),
               ''health_check'' \<mapsto> VList (flattenAppHealthCheck (svc_HealthCheck s)),
               ''instance_size_slug'' \<mapsto> VString (svc_InstanceSizeSlug s),
               ''instance_count'' \<mapsto> VInt (int_of_int64 (svc_InstanceCount s)),
               ''source_dir'' \<mapsto> VString (svc_SourceDir s),
               ''environment_slug'' \<mapsto> VString (svc_EnvironmentSlug s))"

definition flattenAppSpecServices ::
  "(tfval \<Rightarrow> tfval list \<Rightarrow> nat) \<Rightarrow> AppServiceSpec slice \<Rightarrow> attrs list" where
  "flattenAppSpecServices hashResource services =
     rangeAssign (flattenAppSpecServices_body hashResource) (elems services) 0
       (replicate (len services) Map.empty)"

subsection \<open>Static sites\<close>

definition expandAppSpecStaticSites_body :: "tfval \<Rightarrow> panic + AppStaticSiteSpec" where
  "expandAppSpecStaticSites_body rawSite =
     andThen (assertMap rawSite) (\<lambda>site.
     andThen (assertString (index site ''name'')) (\<lambda>name.
     andThen (assertString (index site ''build_command'')) (\<lambda>buildCommand.
     andThen (assertString (index site ''dockerfile_path'')) (\<lambda>dockerfilePath.
     andThen (assertSet (index site ''env'')) (\<lambda>envSet.
     andThen (expandAppEnvs envSet) (\<lambda>envs.
     andThen (assertString (index site ''source_dir'')) (\<lambda>sourceDir.
     andThen (assertString (index site ''output_dir'')) (\<lambda>outputDir.
     andThen (assertString (index site ''index_document'')) (\<lambda>indexDocument.
     andThen (assertString (index site ''error_document'')) (\<lambda>errorDocument.
     andThen (assertString (index site ''environment_slug'')) (\<lambda>environmentSlug.
     andThen (Inr \<lparr>site_Name = name, site_BuildCommand = buildCommand,
                    site_DockerfilePath = dockerfilePath, site_Envs = envs,
                    site_SourceDir = sourceDir, site_OutputDir = outputDir,
                    site_IndexDocument = indexDocument, site_ErrorDocument = errorDocument,
                    site_EnvironmentSlug = environmentSlug,
                    site_GitHub = None, site_Git = None, site_Routes = None\<rparr>) (\<lambda>s.
     andThen (assertList (index site ''github'')) (\<lambda>github.
     andThen (if length github > 0
              then andThen (expandAppGitHubSourceSpec github) (\<lambda>g. Inr (s\<lparr>site_GitHub := Some g\<rparr>))
              else Inr s) (\<lambda>s.
     andThen (assertList (index site ''git'')) (\<lambda>git.
     andThen (if length git > 0
              then andThen (expandAppGitSourceSpec git) (\<lambda>g. Inr (s\<lparr>site_Git := Some g\<rparr>))
              else Inr s) (\<lambda>s.
     andThen (assertList (index site ''routes'')) (\<lambda>routes.
     andThen (if length routes > 0
              then andThen (expandAppRoutes routes) (\<lambda>r. Inr (s\<lparr>site_Routes := r\<rparr>))
              else Inr s) (\<lambda>s.
     Inr s))))))))))))))))))"

definition expandAppSpecStaticSites :: "tfval list \<Rightarrow> panic + AppStaticSiteSpec slice" where
  "expandAppSpecStaticSites config =
     andThen (rangeAppend expandAppSpecStaticSites_body config []) (\<lambda>appSites. Inr (Some appSites))"

definition flattenAppSpecStaticSites_body ::
  "(tfval \<Rightarrow> tfval list \<Rightarrow> nat) \<Rightarrow> AppStaticSiteSpec \<Rightarrow> attrs" where
  "flattenAppSpecStaticSites_body hashResource s =
     Map.empty(''name'' \<mapsto> VString (site_Name s),
               ''build_command'' \<mapsto> VString (site_BuildCommand s),
               ''github'' \<mapsto> VList (flattenAppGitHubSourceSpec (site_GitHub s)),
               ''git'' \<mapsto> VList (flattenAppGitSourceSpec (site_Git s)),
               ''routes'' \<mapsto> VList (flattenAppRoutes (site_Routes s)),
               ''dockerfile_path'' \<mapsto> VString (site_DockerfilePath s),
               ''env'' \<mapsto> VSet (flattenAppEnvs hashResource (site_Envs s)),
               ''source_dir'' \<mapsto> VString (site_SourceDir s),
               ''output_dir'' \<mapsto> VString (site_OutputDir s),
               ''index_document'' \<mapsto> VString (site_IndexDocument s),
               ''error_document'' \<mapsto> VString (site_ErrorDocument s),
               ''environment_slug'' \<mapsto> VString (site_EnvironmentSlug s))"

definition flattenAppSpecStaticSites ::
  "(tfval \<Rightarrow> tfval list \<Rightarrow> nat) \<Rightarrow> AppStaticSiteSpec slice \<Rightarrow> attrs list" where
  "flattenAppSpecStaticSites hashResource sites =
     rangeAssign (flattenAppSpecStaticSites_body hashResource) (elems sites) 0
       (replicate (len sites) Map.empty)"

subsection \<open>Workers\<close>

definition expandAppSpecWorkers_body :: "tfval \<Rightarrow> panic + AppWorkerSpec" where
  "expandAppSpecWorkers_body rawWorker =
     andThen (assertMap rawWorker) (\<lambda>worker.
     andThen (assertString (index worker ''name'')) (\<lambda>name.
     andThen (assertString (index worker ''run_command'')) (\<lambda>runCommand.
     andThen (assertString (index worker ''build_command'')) (\<lambda>buildCommand.
     andThen (assertString (index worker ''dockerfile_path'')) (\<lambda>dockerfilePath.
     andThen (assertSet (index worker ''env'')) (\<lambda>envSet.
     andThen (expandAppEnvs envSet) (\<lambda>envs.
     andThen (assertString (index worker ''instance_size_slug'')) (\<lambda>instanceSizeSlug.
     andThen (assertInt (index worker ''instance_count'')) (\<lambda>instanceCount.
     andThen (assertString (index worker ''source_dir'')) (\<lambda>sourceDir.
     andThen (assertString (index worker ''environment_slug'')) (\<lambda>environmentSlug.
     andThen (Inr \<lparr>wrk_Name = name, wrk_RunCommand = runCommand,
                    wrk_BuildCommand = buildCommand, wrk_DockerfilePath = dockerfilePath,
                    wrk_Envs = envs, wrk_InstanceSizeSlug = instanceSizeSlug,
                    wrk_InstanceCount = int64_of_int instanceCount,
                    wrk_SourceDir = sourceDir, wrk_EnvironmentSlug = environmentSlug,
                    wrk_GitHub = None, wrk_Git = None\<rparr>) (\<lambda>s.
     andThen (assertList (index worker ''github'')) (\<lambda>github.
     andThen (if length github > 0
              then andThen (expandAppGitHubSourceSpec github) (\<lambda>g. Inr (s\<lparr>wrk_GitHub := Some g\<rparr>))
              else Inr s) (\<lambda>s.
     andThen (assertList (index worker ''git'')) (\<lambda>git.
     andThen (if length git > 0
              then andThen (expandAppGitSourceSpec git) (\<lambda>g. Inr (s\<lparr>wrk_Git := Some g\<rparr>))
              else Inr s) (\<lambda>s.
     Inr s))))))))))))))))"

definition expandAppSpecWorkers :: "tfval list \<Rightarrow> panic + AppWorkerSpec slice" where
  "expandAppSpecWorkers config =
     andThen (rangeAppend expandAppSpecWorkers_body config []) (\<lambda>appWorkers. Inr (Some appWorkers))"

definition flattenAppSpecWorkers_body ::
  "(tfval \<Rightarrow> tfval list \<Rightarrow> nat) \<Rightarrow> AppWorkerSpec \<Rightarrow> attrs" where
  "flattenAppSpecWorkers_body hashResource w =
     Map.empty(''name'' \<mapsto> VString (wrk_Name w),
               ''run_command'' \<mapsto> VString (wrk_RunCommand w),
               ''build_command'' \<mapsto> VString (wrk_BuildCommand w),
               ''github'' \<mapsto> VList (flattenAppGitHubSourceSpec (wrk_GitHub w)),
               ''git'' \<mapsto> VList (flattenAppGitSourceSpec (wrk_Git w)),
               ''dockerfile_path'' \<mapsto> VString (wrk_DockerfilePath w),
               ''env'' \<mapsto> VSet (flattenAppEnvs hashResource (wrk_Envs w)),
               ''instance_size_slug'' \<mapsto> VString (wrk_InstanceSizeSlug w),
               ''instance_count'' \<mapsto> VInt (int_of_int64 (wrk_InstanceCount w)),
               ''source_dir'' \<mapsto> VString (wrk_SourceDir w),
               ''environment_slug'' \<mapsto> VString (wrk_EnvironmentSlug w))"

definition flattenAppSpecWorkers ::
  "(tfval \<Rightarrow> tfval list \<Rightarrow> nat) \<Rightarrow> AppWorkerSpec slice \<Rightarrow> attrs list" where
  "flattenAppSpecWorkers hashResource workers =
     rangeAssign (flattenAppSpecWorkers_body hashResource) (elems workers) 0
       (replicate (len workers) Map.empty)"

subsection \<open>Databases\<close>

definition expandAppSpecDatabases_body :: "tfval \<Rightarrow> panic + AppDatabaseSpec" where
  "expandAppSpecDatabases_body rawDatabase =
     andThen (assertMap rawDatabase) (\<lambda>db.
     andThen (assertString (index db ''name'')) (\<lambda>name.
     andThen (assertString (index db ''engine'')) (\<lambda>engine.
     andThen (assertString (index db ''version'')) (\<lambda>version.
     andThen (assertBool (index db ''production'')) (\<lambda>production.
     andThen (assertString (index db ''cluster_name'')) (\<lambda>clusterName.
     andThen (assertString (index db ''db_name'')) (\<lambda>dbName.
     andThen (assertString (index db ''db_user'')) (\<lambda>dbUser.
     Inr \<lparr>db_Name = name, db_Engine = engine, db_Version = version,
          db_Production = production, db_ClusterName = clusterName,
          db_DBName = dbName, db_DBUser = dbUser\<rparr>))))))))"

definition expandAppSpecDatabases :: "tfval list \<Rightarrow> panic + AppDatabaseSpec slice" where
  "expandAppSpecDatabases config =
     andThen (rangeAppend expandAppSpecDatabases_body config []) (\<lambda>appDatabases. Inr (Some appDatabases))"

definition flattenAppSpecDatabases_body :: "AppDatabaseSpec \<Rightarrow> attrs" where
  "flattenAppSpecDatabases_body db =
     Map.empty(''name'' \<mapsto> VString (db_Name db),
               ''engine'' \<mapsto> VEngine (db_Engine db),
               ''version'' \<mapsto> VString (db_Version db),
               ''production'' \<mapsto> VBool (db_Production db),
               ''cluster_name'' \<mapsto> VString (db_ClusterName db),
               ''db_name'' \<mapsto> VString (db_DBName db),
               ''db_user'' \<mapsto> VString (db_DBUser db))"

definition flattenAppSpecDatabases :: "AppDatabaseSpec slice \<Rightarrow> attrs list" where
  "flattenAppSpecDatabases databases =
     rangeAssign flattenAppSpecDatabases_body (elems databases) 0
       (replicate (len databases) Map.empty)"

subsection \<open>The app spec\<close>

text \<open>The zero value \<^verbatim>\<open>&godo.AppSpec{}\<close>: empty strings and nil slices.\<close>

definition zeroAppSpec :: AppSpec where
  "zeroAppSpec = \<lparr>Name = [], Region = [], Domains = None, Services = None,
                   StaticSites = None, Workers = None, Databases = None\<rparr>"

definition expandAppSpec :: "tfval list \<Rightarrow> panic + AppSpec" where
  "expandAppSpec config =
     (case config of
        [] \<Rightarrow> Inr zeroAppSpec
      | c0 # _ \<Rightarrow>
          if c0 = VNil then Inr zeroAppSpec
          else
            andThen (assertMap c0) (\<lambda>appSpecConfig.
            andThen (assertString (index appSpecConfig ''name'')) (\<lambda>name.
            andThen (assertString (index appSpecConfig ''region'')) (\<lambda>region.
            andThen (assertSet (index appSpecConfig ''domains'')) (\<lambda>domainSet.
            andThen (expandAppDomainSpec domainSet) (\<lambda>domains.
            andThen (assertList (index appSpecConfig ''service'')) (\<lambda>serviceList.
            andThen (expandAppSpecServices serviceList) (\<lambda>services.
            andThen (assertList (index appSpecConfig ''static_site'')) (\<lambda>siteList.
            andThen (expandAppSpecStaticSites siteList) (\<lambda>staticSites.
            andThen (assertList (index appSpecConfig ''worker'')) (\<lambda>workerList.
            andThen (expandAppSpecWorkers workerList) (\<lambda>workers.
            andThen (assertList (index appSpecConfig ''database'')) (\<lambda>databaseList.
            andThen (expandAppSpecDatabases databaseList) (\<lambda>databases.
            Inr \<lparr>Name = name, Region = region, Domains = domains, Services = services,
                 StaticSites = staticSites, Workers = workers,
                 Databases = databases\<rparr>))))))))))))))"

text \<open>
  A list of flattened components is stored in the result map as a list value of maps.
\<close>

definition flattenAppSpec ::
  "(tfval \<Rightarrow> tfval list \<Rightarrow> nat) \<Rightarrow> (tfval \<Rightarrow> tfval list \<Rightarrow> nat) \<Rightarrow> AppSpec option \<Rightarrow> attrs list" where
  "flattenAppSpec hashString hashResource spec =
     (case spec of
        None \<Rightarrow> []
      | Some sp \<Rightarrow>
          (let r = Map.empty(''name'' \<mapsto> VString (Name sp),
                             ''region'' \<mapsto> VString (Region sp),
                             ''domains'' \<mapsto> VSet (flattenAppDomainSpec hashString (Domains sp)));
               r = (if len (Services sp) > 0
                    then r(''service'' \<mapsto> VList (map VMap (flattenAppSpecServices hashResource (Services sp))))
                    else r);
               r = (if len (StaticSites sp) > 0
                    then r(''static_site'' \<mapsto> VList (map VMap (flattenAppSpecStaticSites hashResource (StaticSites sp))))
                    else r);
               r = (if len (Workers sp) > 0
                    then r(''worker'' \<mapsto> VList (map VMap (flattenAppSpecWorkers hashResource (Workers sp))))
                    else r);
               r = (if len (Databases sp) > 0
                    then r(''database'' \<mapsto> VList (map VMap (flattenAppSpecDatabases (Databases sp))))
                    else r)
           in [] @ [r]))"

section \<open>Schema declarations\<close>

text \<open>
  Modelled from the spec: \<^verbatim>\<open>schema.Schema\<close>, \<^verbatim>\<open>schema.Resource\<close> and the validation
  functions are declared by the Terraform plugin SDK, outside this repository.
  A \<^verbatim>\<open>schema.Schema\<close> literal is the list of the fields it sets, in the order of the source;
  a field it leaves out has Go's zero value. \<^verbatim>\<open>Elem\<close> is a \<^verbatim>\<open>*schema.Schema\<close> or a
  \<^verbatim>\<open>*schema.Resource\<close>, which wraps a map from attribute names to schemas.
  \<^verbatim>\<open>validation.StringInSlice(valid, ignoreCase)\<close> is kept as its two arguments.
\<close>

datatype ValueType = TypeBool | TypeInt | TypeString | TypeList | TypeSet

datatype Validator = StringInSlice "string list" bool

datatype Schema = Schema "Field list"
  and Field =
      Type ValueType
    | Required bool
    | Optional bool
    | Computed bool
    | Description string
    | MinItems nat
    | MaxItems nat
    | Default tfval
    | ValidateFunc Validator
    | Elem ElemT
    | SetFunc HashFunc
  and ElemT = ElemSchema Schema | ElemResource Resource
  and Resource = Resource "string \<Rightarrow> Schema option"
  and HashFunc = HashString | HashResource Resource

fun schemaOf :: "Resource \<Rightarrow> string \<Rightarrow> Schema option" where
  "schemaOf (Resource m) = m"

fun fieldsOf :: "Schema \<Rightarrow> Field list" where
  "fieldsOf (Schema fs) = fs"

definition appSpecGitSourceSchema :: "string \<Rightarrow> Schema option" where
  "appSpecGitSourceSchema =
     Map.empty(''repo_clone_url'' \<mapsto> Schema [Type TypeString, Optional True],
               ''branch'' \<mapsto> Schema [Type TypeString, Optional True])"

definition appSpecGitHubSourceSchema :: "string \<Rightarrow> Schema option" where
  "appSpecGitHubSourceSchema =
     Map.empty(''repo'' \<mapsto> Schema [Type TypeString, Optional True],
               ''branch'' \<mapsto> Schema [Type TypeString, Optional True],
               ''deploy_on_push'' \<mapsto> Schema [Type TypeBool, Optional True])"

definition appSpecEnvSchema :: Resource where
  "appSpecEnvSchema =
     Resource (Map.empty(
       ''key'' \<mapsto> Schema [Type TypeString, Optional True],
       ''value'' \<mapsto> Schema [Type TypeString, Optional True],
       ''scope'' \<mapsto> Schema [Type TypeString, Optional True,
                             Default (VString ''RUN_AND_BUILD_TIME''),
                             ValidateFunc (StringInSlice
                               [''UNSET'', ''RUN_TIME'', ''BUILD_TIME'', ''RUN_AND_BUILD_TIME'']
                               False)],
       ''type'' \<mapsto> Schema [Type TypeString, Optional True, Default (VString ''GENERAL''),
                            ValidateFunc (StringInSlice [''GENERAL'', ''SECRET''] False)]))"

definition appSpecRouteSchema :: "string \<Rightarrow> Schema option" where
  "appSpecRouteSchema =
     Map.empty(''path'' \<mapsto> Schema [Type TypeString, Optional True,
       Description ''Path specifies an route by HTTP path prefix. Paths must start with / and must be unique within the app.''])"

definition appSpecHealthCheckSchema :: "string \<Rightarrow> Schema option" where
  "appSpecHealthCheckSchema =
     Map.empty(''path'' \<mapsto> Schema [Type TypeString, Optional True,
       Description ''Path is the route path used for the HTTP health check ping.''])"

definition appSpecComponentBase :: "string \<Rightarrow> Schema option" where
  "appSpecComponentBase =
     Map.empty(
       ''name'' \<mapsto> Schema [Type TypeString, Required True,
                            Description ''The name of the component''],
       ''git'' \<mapsto> Schema [Type TypeList, Optional True, MaxItems 1,
                           Elem (ElemResource (Resource appSpecGitSourceSchema))],
       ''github'' \<mapsto> Schema [Type TypeList, Optional True, MaxItems 1,
                              Elem (ElemResource (Resource appSpecGitHubSourceSchema))],
       ''dockerfile_path'' \<mapsto> Schema [Type TypeString, Optional True],
       ''build_command'' \<mapsto> Schema [Type TypeString, Optional True],
       ''env'' \<mapsto> Schema [Type TypeSet, Optional True, Elem (ElemResource appSpecEnvSchema),
                           SetFunc (HashResource appSpecEnvSchema)],
       ''routes'' \<mapsto> Schema [Type TypeList, Optional True, Computed True, MaxItems 1,
                              Elem (ElemResource (Resource appSpecRouteSchema))],
       ''source_dir'' \<mapsto> Schema [Type TypeString, Optional True],
       ''environment_slug'' \<mapsto> Schema [Type TypeString, Optional True])"

text \<open>
  The loop \<^verbatim>\<open>for k, v := range appSpecComponentBase() { m[k] = v }\<close> stores every entry of
  the base in \<open>m\<close>, over an entry \<open>m\<close> has under the same key, whatever the order of the
  iteration: the result is \<open>m ++ appSpecComponentBase\<close>.
\<close>

definition appSpecServicesSchema :: Resource where
  "appSpecServicesSchema =
     (let serviceSchema =
            Map.empty(
              ''run_command'' \<mapsto> Schema [Type TypeString, Optional True],
              ''http_port'' \<mapsto> Schema [Type TypeInt, Optional True],
              ''instance_size_slug'' \<mapsto> Schema [Type TypeString, Optional True],
              ''instance_count'' \<mapsto> Schema [Type TypeInt, Optional True],
              ''health_check'' \<mapsto> Schema [Type TypeList, Optional True, MaxItems 1,
                 Elem (ElemResource (Resource appSpecHealthCheckSchema))]);
          serviceSchema = serviceSchema ++ appSpecComponentBase
      in Resource serviceSchema)"

definition appSpecStaticSiteSchema :: Resource where
  "appSpecStaticSiteSchema =
     (let staticSiteSchema =
            Map.empty(
              ''output_dir'' \<mapsto> Schema [Type TypeString, Optional True,
                 Description ''An optional path to where the built assets will be located, relative to the build context. If not set, App Platform will automatically scan for these directory names: `_static`, `dist`, `public`.''],
              ''index_document'' \<mapsto> Schema [Type TypeString, Optional True],
              ''error_document'' \<mapsto> Schema [Type TypeString, Optional True]);
          staticSiteSchema = staticSiteSchema ++ appSpecComponentBase
      in Resource staticSiteSchema)"

definition appSpecWorkerSchema :: Resource where
  "appSpecWorkerSchema =
     (let workerSchema =
            Map.empty(
              ''run_command'' \<mapsto> Schema [Type TypeString, Optional True],
              ''instance_size_slug'' \<mapsto> Schema [Type TypeString, Optional True],
              ''instance_count'' \<mapsto> Schema [Type TypeInt, Optional True]);
          workerSchema = workerSchema ++ appSpecComponentBase
      in Resource workerSchema)"

definition appSpecDatabaseSchema :: Resource where
  "appSpecDatabaseSchema =
     Resource (Map.empty(
       ''name'' \<mapsto> Schema [Type TypeString, Optional True],
       ''engine'' \<mapsto> Schema [Type TypeString, Optional True,
                              ValidateFunc (StringInSlice [''UNSET'', ''MYSQL'', ''PG'', ''REDIS'']
                                False)],
       ''version'' \<mapsto> Schema [Type TypeString, Optional True],
       ''production'' \<mapsto> Schema [Type TypeBool, Optional True],
       ''cluster_name'' \<mapsto> Schema [Type TypeString, Optional True],
       ''db_name'' \<mapsto> Schema [Type TypeString, Optional True],
       ''db_user'' \<mapsto> Schema [Type TypeString, Optional True]))"

definition appSpecSchema :: "string \<Rightarrow> Schema option" where
  "appSpecSchema =
     Map.empty(
       ''name'' \<mapsto> Schema [Type TypeString, Required True, Description ''The name of the app''],
       ''region'' \<mapsto> Schema [Type TypeString, Optional True,
          Description ''The slug for the DigitalOcean data center region hosting the app''],
       ''domains'' \<mapsto> Schema [Type TypeSet, Optional True,
                               Elem (ElemSchema (Schema [Type TypeString]))],
       ''service'' \<mapsto> Schema [Type TypeList, Optional True, MinItems 1,
                               Elem (ElemResource appSpecServicesSchema)],
       ''static_site'' \<mapsto> Schema [Type TypeList, Optional True,
                                   Elem (ElemResource appSpecStaticSiteSchema)],
       ''worker'' \<mapsto> Schema [Type TypeList, Optional True,
                              Elem (ElemResource appSpecWorkerSchema)],
       ''database'' \<mapsto> Schema [Type TypeList, Optional True,
                                Elem (ElemResource appSpecDatabaseSchema)])"

section \<open>The sweeper of the bucket-object acceptance tests\<close>

text \<open>
  \<^verbatim>\<open>testSweepS3BucketObjects\<close> talks to the S3 API of the region and deletes through
  \<^verbatim>\<open>deleteAllS3ObjectVersions\<close>, which another file of the package defines. What they
  answer is a parameter of the model: the error of
  \<^verbatim>\<open>session.NewSession\<close>, the two results of \<^verbatim>\<open>ListBuckets\<close> and of \<^verbatim>\<open>GetBucketLocation\<close>
  for a bucket name, the error of \<^verbatim>\<open>deleteAllS3ObjectVersions\<close> for a bucket name, and the
  predicate \<^verbatim>\<open>isAWSErr\<close>. An error is its message; a pointer is an option. The model
  returns, with the result of the function, the bucket names
  \<^verbatim>\<open>deleteAllS3ObjectVersions\<close> was called on, in the order of the calls.
\<close>

type_synonym awsError = string

record Bucket =
  bucket_Name :: "string option"

record GetBucketLocationOutput =
  LocationConstraint :: "string option"

record sweepEnv =
  NewSessionErr :: "awsError option"
  ListBuckets :: "Bucket list \<times> awsError option"
  GetBucketLocation :: "string \<Rightarrow> GetBucketLocationOutput option \<times> awsError option"
  deleteAllS3ObjectVersions :: "string \<Rightarrow> awsError option"
  isAWSErr :: "awsError option \<Rightarrow> string \<Rightarrow> string \<Rightarrow> bool"

text \<open>\<^verbatim>\<open>log.Fatal\<close> ends the process; otherwise the function returns an error or nil.\<close>

datatype sweepResult = Exited awsError | Returned "awsError option"

text \<open>\<^verbatim>\<open>aws.StringValue\<close>: the string a pointer holds, the empty string for nil.\<close>

definition StringValue :: "string option \<Rightarrow> string" where
  "StringValue p = (case p of None \<Rightarrow> [] | Some s \<Rightarrow> s)"

text \<open>\<^verbatim>\<open>strings.HasPrefix(s, prefix)\<close>.\<close>

definition HasPrefix :: "string \<Rightarrow> string \<Rightarrow> bool" where
  "HasPrefix s pre \<longleftrightarrow> length s \<ge> length pre \<and> take (length pre) s = pre"

definition testSweepSkipSweepError :: "sweepEnv \<Rightarrow> awsError option \<Rightarrow> bool" where
  "testSweepSkipSweepError env err =
     (if isAWSErr env err ''RequestError'' ''send request failed'' then True
      else if isAWSErr env err ''UnsupportedOperation'' [] then True
      else if isAWSErr env err ''InvalidParameterValue''
                ''not permitted in this API version for your account'' then True
      else if isAWSErr env err ''InvalidParameterValue'' ''Access Denied to API Version'' then True
      else if isAWSErr env err ''AccessDeniedException'' [] then True
      else if isAWSErr env err ''BadRequestException'' ''not supported'' then True
      else if isAWSErr env err ''InvalidAction'' ''is not valid'' then True
      else False)"

definition testS3BucketRegion :: "sweepEnv \<Rightarrow> string \<Rightarrow> string \<times> awsError option" where
  "testS3BucketRegion env bucket =
     (case GetBucketLocation env bucket of
        (output, Some err) \<Rightarrow> ([], Some err)
      | (None, None) \<Rightarrow> (''nyc3'', None)
      | (Some out, None) \<Rightarrow>
          (case LocationConstraint out of
             None \<Rightarrow> (''nyc3'', None)
           | Some l \<Rightarrow> (StringValue (Some l), None)))"

definition prefixes :: "string list" where
  "prefixes = [''mybucket.'', ''mylogs.'', ''tf-acc'', ''tf-object-test'', ''tf-test'',
               ''tf-emr-bootstrap'']"

text \<open>The inner loop over the prefixes, with its \<^verbatim>\<open>break\<close>.\<close>

fun hasPrefixLoop :: "string \<Rightarrow> string list \<Rightarrow> bool \<Rightarrow> bool" where
  "hasPrefixLoop bucketName [] hasPrefix = hasPrefix"
| "hasPrefixLoop bucketName (pre # rest) hasPrefix =
     (if HasPrefix bucketName pre then True else hasPrefixLoop bucketName rest hasPrefix)"

text \<open>
  The loop over the listed buckets; \<open>calls\<close> are the deletion calls made so far. A
  \<^verbatim>\<open>continue\<close> goes on with the next bucket, the \<^verbatim>\<open>return\<close> after a failed deletion ends
  the loop.
\<close>

fun sweepLoop :: "sweepEnv \<Rightarrow> string \<Rightarrow> Bucket list \<Rightarrow> string list \<Rightarrow> string list \<times> sweepResult" where
  "sweepLoop env region [] calls = (calls, Returned None)"
| "sweepLoop env region (bucket # rest) calls =
     (let bucketName = StringValue (bucket_Name bucket) in
      if \<not> hasPrefixLoop bucketName prefixes False then sweepLoop env region rest calls
      else
        (case testS3BucketRegion env bucketName of
           (bucketRegion, Some err) \<Rightarrow> sweepLoop env region rest calls
         | (bucketRegion, None) \<Rightarrow>
             if bucketRegion \<noteq> region then sweepLoop env region rest calls
             else
               (case deleteAllS3ObjectVersions env bucketName of
                  Some err \<Rightarrow>
                    (calls @ [bucketName],
                     Returned (Some (''error listing S3 Bucket ('' @ bucketName @ '') Objects: '' @ err)))
                | None \<Rightarrow> sweepLoop env region rest (calls @ [bucketName]))))"

definition testSweepS3BucketObjects :: "sweepEnv \<Rightarrow> string \<Rightarrow> string list \<times> sweepResult" where
  "testSweepS3BucketObjects env region =
     (case NewSessionErr env of
        Some err \<Rightarrow> ([], Exited err)
      | None \<Rightarrow>
          (case ListBuckets env of
             (buckets, err) \<Rightarrow>
               if testSweepSkipSweepError env err then ([], Returned None)
               else
                 (case err of
                    Some e \<Rightarrow> ([], Returned (Some (''error listing S3 Bucket Objects: '' @ e)))
                  | None \<Rightarrow>
                      if length buckets = 0 then ([], Returned None)
                      else sweepLoop env region buckets [])))"

text \<open>What the sweeper asks of a bucket name before it deletes.\<close>

definition inScope :: "sweepEnv \<Rightarrow> string \<Rightarrow> string \<Rightarrow> bool" where
  "inScope env region bucketName \<longleftrightarrow>
     (prefix ''mybucket.'' bucketName \<or> prefix ''mylogs.'' bucketName
      \<or> prefix ''tf-acc'' bucketName \<or> prefix ''tf-object-test'' bucketName
      \<or> prefix ''tf-test'' bucketName \<or> prefix ''tf-emr-bootstrap'' bucketName)
     \<and> testS3BucketRegion env bucketName = (region, None)"

section \<open>Well-typed configuration\<close>

text \<open>
  Terraform hands the expand functions attribute maps that follow the schema: every key
  of the schema is present, with a value of the Go type the schema's \<^verbatim>\<open>Type\<close> stands for.
  The predicates below say so for each block of the app spec, and the projections read a
  value of a known type.
\<close>

fun str :: "tfval \<Rightarrow> string" where
  "str (VString s) = s"
| "str _ = []"

fun num :: "tfval \<Rightarrow> 64 word" where
  "num (VInt i) = i"
| "num _ = 0"

fun flag :: "tfval \<Rightarrow> bool" where
  "flag (VBool b) = b"
| "flag _ = False"

fun items :: "tfval \<Rightarrow> tfval list" where
  "items (VList xs) = xs"
| "items (VSet xs) = xs"
| "items _ = []"

fun attrsOf :: "tfval \<Rightarrow> attrs" where
  "attrsOf (VMap m) = m"
| "attrsOf _ = Map.empty"

definition hasString :: "attrs \<Rightarrow> string \<Rightarrow> bool" where
  "hasString m k = (case m k of Some (VString _) \<Rightarrow> True | _ \<Rightarrow> False)"

definition hasInt :: "attrs \<Rightarrow> string \<Rightarrow> bool" where
  "hasInt m k = (case m k of Some (VInt _) \<Rightarrow> True | _ \<Rightarrow> False)"

definition hasBool :: "attrs \<Rightarrow> string \<Rightarrow> bool" where
  "hasBool m k = (case m k of Some (VBool _) \<Rightarrow> True | _ \<Rightarrow> False)"

fun isMapOf :: "(attrs \<Rightarrow> bool) \<Rightarrow> tfval \<Rightarrow> bool" where
  "isMapOf wt (VMap m) = wt m"
| "isMapOf wt _ = False"

definition hasListOf :: "(attrs \<Rightarrow> bool) \<Rightarrow> attrs \<Rightarrow> string \<Rightarrow> bool" where
  "hasListOf wt m k = (case m k of Some (VList xs) \<Rightarrow> list_all (isMapOf wt) xs | _ \<Rightarrow> False)"

definition hasSetOf :: "(tfval \<Rightarrow> bool) \<Rightarrow> attrs \<Rightarrow> string \<Rightarrow> bool" where
  "hasSetOf P m k = (case m k of Some (VSet xs) \<Rightarrow> list_all P xs | _ \<Rightarrow> False)"

definition wt_env :: "attrs \<Rightarrow> bool" where
  "wt_env m \<longleftrightarrow> dom m = {''value'', ''scope'', ''key'', ''type''}
     \<and> hasString m ''value'' \<and> hasString m ''scope'' \<and> hasString m ''key'' \<and> hasString m ''type''"

definition envOf :: "attrs \<Rightarrow> AppVariableDefinition" where
  "envOf m = \<lparr>env_Value = str (index m ''value''), env_Scope = str (index m ''scope''),
              env_Key = str (index m ''key''), env_Type = str (index m ''type'')\<rparr>"

definition wt_github :: "attrs \<Rightarrow> bool" where
  "wt_github m \<longleftrightarrow> dom m = {''repo'', ''branch'', ''deploy_on_push''}
     \<and> hasString m ''repo'' \<and> hasString m ''branch'' \<and> hasBool m ''deploy_on_push''"

definition wt_git :: "attrs \<Rightarrow> bool" where
  "wt_git m \<longleftrightarrow> dom m = {''repo_clone_url'', ''branch''}
     \<and> hasString m ''repo_clone_url'' \<and> hasString m ''branch''"

definition wt_path :: "attrs \<Rightarrow> bool" where
  "wt_path m \<longleftrightarrow> dom m = {''path''} \<and> hasString m ''path''"

definition wt_service :: "attrs \<Rightarrow> bool" where
  "wt_service m \<longleftrightarrow>
     dom m = {''name'', ''run_command'', ''build_command'', ''http_port'', ''dockerfile_path'',
              ''env'', ''instance_size_slug'', ''instance_count'', ''source_dir'',
              ''environment_slug'', ''github'', ''git'', ''routes'', ''health_check''}
     \<and> hasString m ''name'' \<and> hasString m ''run_command'' \<and> hasString m ''build_command''
     \<and> hasInt m ''http_port'' \<and> hasString m ''dockerfile_path''
     \<and> hasSetOf (isMapOf wt_env) m ''env'' \<and> hasString m ''instance_size_slug''
     \<and> hasInt m ''instance_count'' \<and> hasString m ''source_dir''
     \<and> hasString m ''environment_slug'' \<and> hasListOf wt_github m ''github''
     \<and> hasListOf wt_git m ''git'' \<and> hasListOf wt_path m ''routes''
     \<and> hasListOf wt_path m ''health_check''"

definition githubOf :: "attrs \<Rightarrow> GitHubSourceSpec" where
  "githubOf m = \<lparr>gh_Repo = str (index m ''repo''), gh_Branch = str (index m ''branch''),
                 gh_DeployOnPush = flag (index m ''deploy_on_push'')\<rparr>"

definition gitOf :: "attrs \<Rightarrow> GitSourceSpec" where
  "gitOf m = \<lparr>git_Branch = str (index m ''branch''),
              git_RepoCloneURL = str (index m ''repo_clone_url'')\<rparr>"

definition routeOf :: "attrs \<Rightarrow> AppRouteSpec" where
  "routeOf m = \<lparr>route_Path = str (index m ''path'')\<rparr>"

definition healthCheckOf :: "attrs \<Rightarrow> AppServiceSpecHealthCheck" where
  "healthCheckOf m = \<lparr>hc_Path = str (index m ''path'')\<rparr>"

fun firstOf :: "(attrs \<Rightarrow> 'a) \<Rightarrow> tfval list \<Rightarrow> 'a option" where
  "firstOf f [] = None"
| "firstOf f (c # _) = Some (f (attrsOf c))"

definition routesOf :: "tfval list \<Rightarrow> AppRouteSpec slice" where
  "routesOf rs = (if rs = [] then None else Some (map (\<lambda>r. routeOf (attrsOf r)) rs))"

definition envsOf :: "tfval list \<Rightarrow> AppVariableDefinition slice" where
  "envsOf es = Some (map (\<lambda>e. envOf (attrsOf e)) es)"

definition serviceOf :: "attrs \<Rightarrow> AppServiceSpec" where
  "serviceOf m =
     \<lparr>svc_Name = str (index m ''name''), svc_RunCommand = str (index m ''run_command''),
      svc_BuildCommand = str (index m ''build_command''),
      svc_HTTPPort = int64_of_int (num (index m ''http_port'')),
      svc_DockerfilePath = str (index m ''dockerfile_path''),
      svc_Envs = envsOf (items (index m ''env'')),
      svc_InstanceSizeSlug = str (index m ''instance_size_slug''),
      svc_InstanceCount = int64_of_int (num (index m ''instance_count'')),
      svc_SourceDir = str (index m ''source_dir''),
      svc_EnvironmentSlug = str (index m ''environment_slug''),
      svc_GitHub = firstOf githubOf (items (index m ''github'')),
      svc_Git = firstOf gitOf (items (index m ''git'')),
      svc_Routes = routesOf (items (index m ''routes'')),
      svc_HealthCheck = firstOf healthCheckOf (items (index m ''health_check''))\<rparr>"

definition setOfList :: "(tfval \<Rightarrow> tfval list \<Rightarrow> nat) \<Rightarrow> tfval list \<Rightarrow> tfval list" where
  "setOfList h xs = fold (Add h) xs NewSet"


definition atMostOne :: "attrs \<Rightarrow> string \<Rightarrow> bool" where
  "atMostOne m k \<longleftrightarrow> length (items (index m k)) \<le> 1"


fun isString :: "tfval \<Rightarrow> bool" where
  "isString (VString _) = True"
| "isString _ = False"

definition wt_site :: "attrs \<Rightarrow> bool" where
  "wt_site m \<longleftrightarrow>
     dom m = {''name'', ''build_command'', ''dockerfile_path'', ''env'', ''source_dir'',
              ''output_dir'', ''index_document'', ''error_document'', ''environment_slug'',
              ''github'', ''git'', ''routes''}
     \<and> hasString m ''name'' \<and> hasString m ''build_command'' \<and> hasString m ''dockerfile_path''
     \<and> hasSetOf (isMapOf wt_env) m ''env'' \<and> hasString m ''source_dir''
     \<and> hasString m ''output_dir'' \<and> hasString m ''index_document''
     \<and> hasString m ''error_document'' \<and> hasString m ''environment_slug''
     \<and> hasListOf wt_github m ''github'' \<and> hasListOf wt_git m ''git''
     \<and> hasListOf wt_path m ''routes''"

text \<open>
  The schema of a worker has the key \<^verbatim>\<open>routes\<close> of the component base, which
  \<^verbatim>\<open>expandAppSpecWorkers\<close> does not read and \<^verbatim>\<open>flattenAppSpecWorkers\<close> does not write.
\<close>

definition wt_worker :: "attrs \<Rightarrow> bool" where
  "wt_worker m \<longleftrightarrow>
     dom m = {''name'', ''run_command'', ''build_command'', ''dockerfile_path'', ''env'',
              ''instance_size_slug'', ''instance_count'', ''source_dir'', ''environment_slug'',
              ''github'', ''git'', ''routes''}
     \<and> hasString m ''name'' \<and> hasString m ''run_command'' \<and> hasString m ''build_command''
     \<and> hasString m ''dockerfile_path'' \<and> hasSetOf (isMapOf wt_env) m ''env''
     \<and> hasString m ''instance_size_slug'' \<and> hasInt m ''instance_count''
     \<and> hasString m ''source_dir'' \<and> hasString m ''environment_slug''
     \<and> hasListOf wt_github m ''github'' \<and> hasListOf wt_git m ''git''
     \<and> hasListOf wt_path m ''routes''"

definition wt_database :: "attrs \<Rightarrow> bool" where
  "wt_database m \<longleftrightarrow>
     dom m = {''name'', ''engine'', ''version'', ''production'', ''cluster_name'', ''db_name'',
              ''db_user''}
     \<and> hasString m ''name'' \<and> hasString m ''engine'' \<and> hasString m ''version''
     \<and> hasBool m ''production'' \<and> hasString m ''cluster_name'' \<and> hasString m ''db_name''
     \<and> hasString m ''db_user''"

definition siteOf :: "attrs \<Rightarrow> AppStaticSiteSpec" where
  "siteOf m =
     \<lparr>site_Name = str (index m ''name''), site_BuildCommand = str (index m ''build_command''),
      site_DockerfilePath = str (index m ''dockerfile_path''),
      site_Envs = envsOf (items (index m ''env'')),
      site_SourceDir = str (index m ''source_dir''),
      site_OutputDir = str (index m ''output_dir''),
      site_IndexDocument = str (index m ''index_document''),
      site_ErrorDocument = str (index m ''error_document''),
      site_EnvironmentSlug = str (index m ''environment_slug''),
      site_GitHub = firstOf githubOf (items (index m ''github'')),
      site_Git = firstOf gitOf (items (index m ''git'')),
      site_Routes = routesOf (items (index m ''routes''))\<rparr>"

definition workerOf :: "attrs \<Rightarrow> AppWorkerSpec" where
  "workerOf m =
     \<lparr>wrk_Name = str (index m ''name''), wrk_RunCommand = str (index m ''run_command''),
      wrk_BuildCommand = str (index m ''build_command''),
      wrk_DockerfilePath = str (index m ''dockerfile_path''),
      wrk_Envs = envsOf (items (index m ''env'')),
      wrk_InstanceSizeSlug = str (index m ''instance_size_slug''),
      wrk_InstanceCount = int64_of_int (num (index m ''instance_count'')),
      wrk_SourceDir = str (index m ''source_dir''),
      wrk_EnvironmentSlug = str (index m ''environment_slug''),
      wrk_GitHub = firstOf githubOf (items (index m ''github'')),
      wrk_Git = firstOf gitOf (items (index m ''git''))\<rparr>"

definition databaseOf :: "attrs \<Rightarrow> AppDatabaseSpec" where
  "databaseOf m =
     \<lparr>db_Name = str (index m ''name''), db_Engine = str (index m ''engine''),
      db_Version = str (index m ''version''), db_Production = flag (index m ''production''),
      db_ClusterName = str (index m ''cluster_name''), db_DBName = str (index m ''db_name''),
      db_DBUser = str (index m ''db_user'')\<rparr>"

text \<open>
  The schema allows at most one \<^verbatim>\<open>github\<close>, \<^verbatim>\<open>git\<close> and \<^verbatim>\<open>health_check\<close> block in a
  component (\<^verbatim>\<open>MaxItems: 1\<close>).
\<close>

definition conforms_service :: "attrs \<Rightarrow> bool" where
  "conforms_service m \<longleftrightarrow>
     wt_service m \<and> atMostOne m ''github'' \<and> atMostOne m ''git'' \<and> atMostOne m ''health_check''"

definition conforms_site :: "attrs \<Rightarrow> bool" where
  "conforms_site m \<longleftrightarrow> wt_site m \<and> atMostOne m ''github'' \<and> atMostOne m ''git''"

definition conforms_worker :: "attrs \<Rightarrow> bool" where
  "conforms_worker m \<longleftrightarrow> wt_worker m \<and> atMostOne m ''github'' \<and> atMostOne m ''git''"

definition wt_appSpec :: "attrs \<Rightarrow> bool" where
  "wt_appSpec m \<longleftrightarrow>
     dom m = {''name'', ''region'', ''domains'', ''service'', ''static_site'', ''worker'',
              ''database''}
     \<and> hasString m ''name'' \<and> hasString m ''region'' \<and> hasSetOf isString m ''domains''
     \<and> hasListOf conforms_service m ''service'' \<and> hasListOf conforms_site m ''static_site''
     \<and> hasListOf conforms_worker m ''worker'' \<and> hasListOf wt_database m ''database''"


section \<open>The two compositions\<close>



text \<open>A hash order for the examples: a new item goes last.\<close>

definition appendOrder :: "tfval \<Rightarrow> tfval list \<Rightarrow> nat" where
  "appendOrder item s = length s"

text \<open>A result that is not the index-out-of-range panic.\<close>

definition inBounds :: "panic + 'a \<Rightarrow> bool" where
  "inBounds r \<longleftrightarrow> r \<noteq> Inl IndexOutOfRange"

section \<open>Specs that flatten without loss\<close>





section \<open>Example configurations\<close>



text \<open>An app with two domains and one component of each kind.\<close>

definition sampleEnv :: attrs where
  "sampleEnv =
     Map.empty(''value'' \<mapsto> VString ''1'', ''scope'' \<mapsto> VString ''RUN_TIME'',
               ''key'' \<mapsto> VString ''DEBUG'', ''type'' \<mapsto> VString ''GENERAL'')"

definition sampleGitHub :: attrs where
  "sampleGitHub =
     Map.empty(''repo'' \<mapsto> VString ''acme/web'', ''branch'' \<mapsto> VString ''main'',
               ''deploy_on_push'' \<mapsto> VBool True)"

definition sampleGit :: attrs where
  "sampleGit =
     Map.empty(''repo_clone_url'' \<mapsto> VString ''https://example.com/w.git'',
               ''branch'' \<mapsto> VString ''main'')"

definition sampleService :: attrs where
  "sampleService =
     Map.empty(''name'' \<mapsto> VString ''web'', ''run_command'' \<mapsto> VString ''run'',
               ''build_command'' \<mapsto> VString ''make'', ''http_port'' \<mapsto> VInt 8080,
               ''dockerfile_path'' \<mapsto> VString [], ''env'' \<mapsto> VSet [VMap sampleEnv],
               ''instance_size_slug'' \<mapsto> VString ''basic-xxs'', ''instance_count'' \<mapsto> VInt 2,
               ''source_dir'' \<mapsto> VString ''/'', ''environment_slug'' \<mapsto> VString ''go'',
               ''github'' \<mapsto> VList [VMap sampleGitHub], ''git'' \<mapsto> VList [],
               ''routes'' \<mapsto> VList [VMap (Map.empty(''path'' \<mapsto> VString ''/''))],
               ''health_check'' \<mapsto> VList [VMap (Map.empty(''path'' \<mapsto> VString ''/health''))])"

definition sampleSite :: attrs where
  "sampleSite =
     Map.empty(''name'' \<mapsto> VString ''docs'', ''build_command'' \<mapsto> VString ''hugo'',
               ''dockerfile_path'' \<mapsto> VString [], ''env'' \<mapsto> VSet [],
               ''source_dir'' \<mapsto> VString ''/docs'', ''output_dir'' \<mapsto> VString ''public'',
               ''index_document'' \<mapsto> VString ''index.html'',
               ''error_document'' \<mapsto> VString ''404.html'',
               ''environment_slug'' \<mapsto> VString ''hugo'',
               ''github'' \<mapsto> VList [], ''git'' \<mapsto> VList [VMap sampleGit],
               ''routes'' \<mapsto> VList [])"

definition sampleWorker :: attrs where
  "sampleWorker =
     Map.empty(''name'' \<mapsto> VString ''queue'', ''run_command'' \<mapsto> VString ''work'',
               ''build_command'' \<mapsto> VString ''make'', ''dockerfile_path'' \<mapsto> VString [],
               ''env'' \<mapsto> VSet [VMap sampleEnv],
               ''instance_size_slug'' \<mapsto> VString ''basic-xxs'', ''instance_count'' \<mapsto> VInt 1,
               ''source_dir'' \<mapsto> VString ''/'', ''environment_slug'' \<mapsto> VString ''go'',
               ''github'' \<mapsto> VList [VMap sampleGitHub], ''git'' \<mapsto> VList [],
               ''routes'' \<mapsto> VList [])"

definition sampleDatabase :: attrs where
  "sampleDatabase =
     Map.empty(''name'' \<mapsto> VString ''db'', ''engine'' \<mapsto> VString ''PG'',
               ''version'' \<mapsto> VString ''12'', ''production'' \<mapsto> VBool False,
               ''cluster_name'' \<mapsto> VString [], ''db_name'' \<mapsto> VString ''app'',
               ''db_user'' \<mapsto> VString ''app'')"


text \<open>Two services, as the API returns them.\<close>

definition webService :: AppServiceSpec where
  "webService =
     \<lparr>svc_Name = ''web'', svc_RunCommand = ''run'', svc_BuildCommand = ''make'',
      svc_HTTPPort = 8080, svc_DockerfilePath = [],
      svc_Envs = Some [\<lparr>env_Value = ''1'', env_Scope = ''RUN_TIME'', env_Key = ''DEBUG'',
                        env_Type = ''GENERAL''\<rparr>],
      svc_InstanceSizeSlug = ''basic-xxs'', svc_InstanceCount = 2, svc_SourceDir = ''/'',
      svc_EnvironmentSlug = ''go'',
      svc_GitHub = Some \<lparr>gh_Repo = ''acme/web'', gh_Branch = ''main'', gh_DeployOnPush = True\<rparr>,
      svc_Git = None, svc_Routes = Some [\<lparr>route_Path = ''/''\<rparr>],
      svc_HealthCheck = Some \<lparr>hc_Path = ''/health''\<rparr>\<rparr>"

definition apiService :: AppServiceSpec where
  "apiService =
     \<lparr>svc_Name = ''api'', svc_RunCommand = ''serve'', svc_BuildCommand = [],
      svc_HTTPPort = 9090, svc_DockerfilePath = ''Dockerfile'', svc_Envs = None,
      svc_InstanceSizeSlug = ''basic-xs'', svc_InstanceCount = 1, svc_SourceDir = ''/api'',
      svc_EnvironmentSlug = [], svc_GitHub = None,
      svc_Git = Some \<lparr>git_Branch = ''main'', git_RepoCloneURL = ''https://example.com/a.git''\<rparr>,
      svc_Routes = None, svc_HealthCheck = None\<rparr>"

text \<open>
  An environment variable and a database whose scope, type and engine are none of the
  strings the schema's validation lists.
\<close>

definition oddEnv :: attrs where
  "oddEnv =
     Map.empty(''value'' \<mapsto> VString ''1'', ''scope'' \<mapsto> VString ''AT_NO_TIME'',
               ''key'' \<mapsto> VString ''DEBUG'', ''type'' \<mapsto> VString ''PUBLIC'')"

definition oddDatabase :: attrs where
  "oddDatabase =
     Map.empty(''name'' \<mapsto> VString ''db'', ''engine'' \<mapsto> VString ''ORACLE'',
               ''version'' \<mapsto> VString ''12'', ''production'' \<mapsto> VBool False,
               ''cluster_name'' \<mapsto> VString [], ''db_name'' \<mapsto> VString ''app'',
               ''db_user'' \<mapsto> VString ''app'')"

text \<open>
  Three buckets: a test bucket in the region swept, a bucket that is not of the tests,
  and a test bucket in another region. No call fails.
\<close>

definition sampleSweepEnv :: sweepEnv where
  "sampleSweepEnv =
     \<lparr>NewSessionErr = None,
      ListBuckets = ([\<lparr>bucket_Name = Some ''tf-acc-1''\<rparr>, \<lparr>bucket_Name = Some ''prod-data''\<rparr>,
                      \<lparr>bucket_Name = Some ''tf-test-2''\<rparr>], None),
      GetBucketLocation = (\<lambda>bucket.
        if bucket = ''tf-test-2'' then (Some \<lparr>LocationConstraint = Some ''ams3''\<rparr>, None)
        else (Some \<lparr>LocationConstraint = None\<rparr>, None)),
      deleteAllS3ObjectVersions = (\<lambda>bucket. None),
      isAWSErr = (\<lambda>err code message. False)\<rparr>"





section \<open>General lemmas\<close>

lemma andThen_Inr [simp]: "andThen (Inr v) f = f v"
  by (simp add: andThen_def)

lemma andThen_Inl [simp]: "andThen (Inl e) f = Inl e"
  by (simp add: andThen_def)

lemma rangeAppend_total:
  assumes "\<And>x. x \<in> set xs \<Longrightarrow> f x = Inr (g x)"
  shows "rangeAppend f xs acc = Inr (acc @ map g xs)"
  using assms by (induction xs arbitrary: acc) simp_all

lemma rangeAssign_take:
  "length result = i + length xs \<Longrightarrow>
   rangeAssign f xs i result = take i result @ map f xs"
proof (induction xs arbitrary: i result)
  case Nil
  then show ?case by simp
next
  case (Cons s rest)
  have "take (Suc i) (result[i := f s]) = take i result @ [f s]"
    using Cons.prems by (simp add: take_Suc_conv_app_nth)
  with Cons show ?case by simp
qed

lemma rangeAssign_map:
  "rangeAssign f xs 0 (replicate (length xs) z) = map f xs"
  by (simp add: rangeAssign_take)

lemma set_take_drop: "set (take n s) \<union> set (drop n s) = set s"
  by (metis append_take_drop_id set_append)

lemma set_Add [simp]: "set (Add h item s) = insert item (set s)"
  by (auto simp: Add_def set_take_drop dest: in_set_takeD in_set_dropD)

lemma distinct_Add: "distinct s \<Longrightarrow> distinct (Add h item s)"
proof (cases "item \<in> set s")
  case True
  assume "distinct s"
  with True show ?thesis by (simp add: Add_def)
next
  case False
  assume d: "distinct s"
  have "distinct (take (h item s) s @ drop (h item s) s)"
    using d by simp
  then have "distinct (take (h item s) s)" "distinct (drop (h item s) s)"
    "set (take (h item s) s) \<inter> set (drop (h item s) s) = {}"
    by (simp_all only: distinct_append)
  moreover have "item \<notin> set (take (h item s) s)" "item \<notin> set (drop (h item s) s)"
    using False by (auto dest: in_set_takeD in_set_dropD)
  ultimately show ?thesis
    using False by (simp add: Add_def)
qed

lemma set_fold_Add:
  "set (fold (\<lambda>x result. Add h (g x) result) xs s) = g ` set xs \<union> set s"
  by (induction xs arbitrary: s) auto

lemma distinct_fold_Add:
  "distinct s \<Longrightarrow> distinct (fold (\<lambda>x result. Add h (g x) result) xs s)"
  by (induction xs arbitrary: s) (simp_all add: distinct_Add)

lemma hasString_assert: "hasString m k \<Longrightarrow> assertString (index m k) = Inr (str (index m k))"
  by (auto simp: hasString_def index_def split: option.splits tfval.splits)


lemma hasInt_assert: "hasInt m k \<Longrightarrow> assertInt (index m k) = Inr (num (index m k))"
  by (auto simp: hasInt_def index_def split: option.splits tfval.splits)


lemma hasBool_assert: "hasBool m k \<Longrightarrow> assertBool (index m k) = Inr (flag (index m k))"
  by (auto simp: hasBool_def index_def split: option.splits tfval.splits)


lemma hasListOf_assert: "hasListOf wt m k \<Longrightarrow> assertList (index m k) = Inr (items (index m k))"
  by (auto simp: hasListOf_def index_def split: option.splits tfval.splits)


lemma hasListOf_all: "hasListOf wt m k \<Longrightarrow> list_all (isMapOf wt) (items (index m k))"
  by (auto simp: hasListOf_def index_def split: option.splits tfval.splits)

lemma hasSetOf_assert: "hasSetOf P m k \<Longrightarrow> assertSet (index m k) = Inr (items (index m k))"
  by (auto simp: hasSetOf_def index_def split: option.splits tfval.splits)

lemma hasSetOf_lookup: "hasSetOf P m k \<Longrightarrow> Some (VSet (items (index m k))) = m k"
  by (auto simp: hasSetOf_def index_def split: option.splits tfval.splits)

lemma hasSetOf_all: "hasSetOf P m k \<Longrightarrow> list_all P (items (index m k))"
  by (auto simp: hasSetOf_def index_def split: option.splits tfval.splits)

lemma isMapOf_VMap: "isMapOf wt v \<Longrightarrow> v = VMap (attrsOf v) \<and> wt (attrsOf v)"
  by (cases v) simp_all


lemma expandAppEnvs_body_wt: "wt_env m \<Longrightarrow> expandAppEnvs_body (VMap m) = Inr (envOf m)"
  by (simp add: wt_env_def expandAppEnvs_body_def envOf_def hasString_assert)



lemma rangeAppend_all:
  assumes "list_all P xs" and "\<And>x. P x \<Longrightarrow> f x = Inr (g x)"
  shows "rangeAppend f xs [] = Inr (map g xs)"
proof -
  have "rangeAppend f xs [] = Inr ([] @ map g xs)"
    by (rule rangeAppend_total) (use assms in \<open>auto simp: list_all_iff\<close>)
  then show ?thesis by simp
qed

lemma expandAppEnvs_body_isMap:
  "isMapOf wt_env v \<Longrightarrow> expandAppEnvs_body v = Inr (envOf (attrsOf v))"
  by (cases v) (simp_all add: expandAppEnvs_body_wt)

lemma expandAppEnvs_wt:
  "list_all (isMapOf wt_env) es \<Longrightarrow> expandAppEnvs es = Inr (envsOf es)"
  by (simp add: expandAppEnvs_def envsOf_def
        rangeAppend_all [where P = "isMapOf wt_env", OF _ expandAppEnvs_body_isMap])

lemma expandAppGitHubSourceSpec_wt:
  "list_all (isMapOf wt_github) config \<Longrightarrow> config \<noteq> [] \<Longrightarrow>
   expandAppGitHubSourceSpec config = Inr (githubOf (attrsOf (hd config)))"
  by (cases config; cases "hd config")
     (simp_all add: expandAppGitHubSourceSpec_def githubOf_def wt_github_def hasString_assert hasBool_assert)

lemma expandAppGitSourceSpec_wt:
  "list_all (isMapOf wt_git) config \<Longrightarrow> config \<noteq> [] \<Longrightarrow>
   expandAppGitSourceSpec config = Inr (gitOf (attrsOf (hd config)))"
  by (cases config; cases "hd config")
     (simp_all add: expandAppGitSourceSpec_def gitOf_def wt_git_def hasString_assert)

lemma expandAppHealthCheck_wt:
  "list_all (isMapOf wt_path) config \<Longrightarrow> config \<noteq> [] \<Longrightarrow>
   expandAppHealthCheck config = Inr (healthCheckOf (attrsOf (hd config)))"
  by (cases config; cases "hd config")
     (simp_all add: expandAppHealthCheck_def healthCheckOf_def wt_path_def hasString_assert)

lemma expandAppRoutes_body_isMap:
  "isMapOf wt_path v \<Longrightarrow> expandAppRoutes_body v = Inr (routeOf (attrsOf v))"
  by (cases v) (simp_all add: expandAppRoutes_body_def routeOf_def wt_path_def hasString_assert)

lemma expandAppRoutes_wt:
  "list_all (isMapOf wt_path) rs \<Longrightarrow>
   expandAppRoutes rs = Inr (Some (map (\<lambda>r. routeOf (attrsOf r)) rs))"
  by (simp add: expandAppRoutes_def
        rangeAppend_all [where P = "isMapOf wt_path", OF _ expandAppRoutes_body_isMap])

lemma firstOf_hd: "xs \<noteq> [] \<Longrightarrow> firstOf f xs = Some (f (attrsOf (hd xs)))"
  by (cases xs) simp_all

lemma expandAppSpecServices_body_wt:
  assumes "wt_service m"
  shows "expandAppSpecServices_body (VMap m) = Inr (serviceOf m)"
proof -
  note w = assms [unfolded wt_service_def]
  have strs: "assertString (index m ''name'') = Inr (str (index m ''name''))"
    "assertString (index m ''run_command'') = Inr (str (index m ''run_command''))"
    "assertString (index m ''build_command'') = Inr (str (index m ''build_command''))"
    "assertString (index m ''dockerfile_path'') = Inr (str (index m ''dockerfile_path''))"
    "assertString (index m ''instance_size_slug'') = Inr (str (index m ''instance_size_slug''))"
    "assertString (index m ''source_dir'') = Inr (str (index m ''source_dir''))"
    "assertString (index m ''environment_slug'') = Inr (str (index m ''environment_slug''))"
    using w by (simp_all add: hasString_assert)
  have ints: "assertInt (index m ''http_port'') = Inr (num (index m ''http_port''))"
    "assertInt (index m ''instance_count'') = Inr (num (index m ''instance_count''))"
    using w by (simp_all add: hasInt_assert)
  have env: "assertSet (index m ''env'') = Inr (items (index m ''env''))"
    "expandAppEnvs (items (index m ''env'')) = Inr (envsOf (items (index m ''env'')))"
    using w by (simp_all add: hasSetOf_assert [of "isMapOf wt_env"] expandAppEnvs_wt hasSetOf_all)
  have lists: "assertList (index m ''github'') = Inr (items (index m ''github''))"
    "assertList (index m ''git'') = Inr (items (index m ''git''))"
    "assertList (index m ''routes'') = Inr (items (index m ''routes''))"
    "assertList (index m ''health_check'') = Inr (items (index m ''health_check''))"
    using w by (simp_all add: hasListOf_assert [of wt_github] hasListOf_assert [of wt_git]
        hasListOf_assert [of wt_path])
  have gh: "items (index m ''github'') \<noteq> [] \<Longrightarrow>
      expandAppGitHubSourceSpec (items (index m ''github'')) =
      Inr (githubOf (attrsOf (hd (items (index m ''github'')))))"
    using w by (simp add: expandAppGitHubSourceSpec_wt hasListOf_all)
  have git: "items (index m ''git'') \<noteq> [] \<Longrightarrow>
      expandAppGitSourceSpec (items (index m ''git'')) =
      Inr (gitOf (attrsOf (hd (items (index m ''git'')))))"
    using w by (simp add: expandAppGitSourceSpec_wt hasListOf_all)
  have hc: "items (index m ''health_check'') \<noteq> [] \<Longrightarrow>
      expandAppHealthCheck (items (index m ''health_check'')) =
      Inr (healthCheckOf (attrsOf (hd (items (index m ''health_check'')))))"
    using w by (simp add: expandAppHealthCheck_wt hasListOf_all)
  have rt: "expandAppRoutes (items (index m ''routes'')) =
      Inr (Some (map (\<lambda>r. routeOf (attrsOf r)) (items (index m ''routes''))))"
    using w by (simp add: expandAppRoutes_wt hasListOf_all)
  show ?thesis
    by (simp add: expandAppSpecServices_body_def serviceOf_def strs ints env lists gh git hc rt
        routesOf_def firstOf_hd)
qed

lemma int_of_int64_of_int [simp]: "int_of_int64 (int64_of_int x) = x"
  by (simp add: int_of_int64_def int64_of_int_def)

lemma int64_of_int_of_int64 [simp]: "int64_of_int (int_of_int64 x) = x"
  by (simp add: int_of_int64_def int64_of_int_def)

lemma set_setOfList [simp]: "set (setOfList h xs) = set xs"
  using set_fold_Add [of h "\<lambda>x. x" xs NewSet] by (simp add: setOfList_def NewSet_def)

lemma distinct_setOfList: "distinct (setOfList h xs)"
  using distinct_fold_Add [of NewSet h "\<lambda>x. x" xs] by (simp add: setOfList_def NewSet_def)















lemma expandAppSpecStaticSites_body_wt:
  assumes "wt_site m"
  shows "expandAppSpecStaticSites_body (VMap m) = Inr (siteOf m)"
proof -
  note w = assms [unfolded wt_site_def]
  have strs: "assertString (index m ''name'') = Inr (str (index m ''name''))"
    "assertString (index m ''build_command'') = Inr (str (index m ''build_command''))"
    "assertString (index m ''dockerfile_path'') = Inr (str (index m ''dockerfile_path''))"
    "assertString (index m ''source_dir'') = Inr (str (index m ''source_dir''))"
    "assertString (index m ''output_dir'') = Inr (str (index m ''output_dir''))"
    "assertString (index m ''index_document'') = Inr (str (index m ''index_document''))"
    "assertString (index m ''error_document'') = Inr (str (index m ''error_document''))"
    "assertString (index m ''environment_slug'') = Inr (str (index m ''environment_slug''))"
    using w by (simp_all add: hasString_assert)
  have env: "assertSet (index m ''env'') = Inr (items (index m ''env''))"
    "expandAppEnvs (items (index m ''env'')) = Inr (envsOf (items (index m ''env'')))"
    using w by (simp_all add: hasSetOf_assert [of "isMapOf wt_env"] expandAppEnvs_wt hasSetOf_all)
  have lists: "assertList (index m ''github'') = Inr (items (index m ''github''))"
    "assertList (index m ''git'') = Inr (items (index m ''git''))"
    "assertList (index m ''routes'') = Inr (items (index m ''routes''))"
    using w by (simp_all add: hasListOf_assert [of wt_github] hasListOf_assert [of wt_git]
        hasListOf_assert [of wt_path])
  have gh: "items (index m ''github'') \<noteq> [] \<Longrightarrow>
      expandAppGitHubSourceSpec (items (index m ''github'')) =
      Inr (githubOf (attrsOf (hd (items (index m ''github'')))))"
    using w by (simp add: expandAppGitHubSourceSpec_wt hasListOf_all)
  have git: "items (index m ''git'') \<noteq> [] \<Longrightarrow>
      expandAppGitSourceSpec (items (index m ''git'')) =
      Inr (gitOf (attrsOf (hd (items (index m ''git'')))))"
    using w by (simp add: expandAppGitSourceSpec_wt hasListOf_all)
  have rt: "expandAppRoutes (items (index m ''routes'')) =
      Inr (Some (map (\<lambda>r. routeOf (attrsOf r)) (items (index m ''routes''))))"
    using w by (simp add: expandAppRoutes_wt hasListOf_all)
  show ?thesis
    by (simp add: expandAppSpecStaticSites_body_def siteOf_def strs env lists gh git rt
        routesOf_def firstOf_hd)
qed

lemma expandAppSpecWorkers_body_wt:
  assumes "wt_worker m"
  shows "expandAppSpecWorkers_body (VMap m) = Inr (workerOf m)"
proof -
  note w = assms [unfolded wt_worker_def]
  have strs: "assertString (index m ''name'') = Inr (str (index m ''name''))"
    "assertString (index m ''run_command'') = Inr (str (index m ''run_command''))"
    "assertString (index m ''build_command'') = Inr (str (index m ''build_command''))"
    "assertString (index m ''dockerfile_path'') = Inr (str (index m ''dockerfile_path''))"
    "assertString (index m ''instance_size_slug'') = Inr (str (index m ''instance_size_slug''))"
    "assertString (index m ''source_dir'') = Inr (str (index m ''source_dir''))"
    "assertString (index m ''environment_slug'') = Inr (str (index m ''environment_slug''))"
    using w by (simp_all add: hasString_assert)
  have ints: "assertInt (index m ''instance_count'') = Inr (num (index m ''instance_count''))"
    using w by (simp_all add: hasInt_assert)
  have env: "assertSet (index m ''env'') = Inr (items (index m ''env''))"
    "expandAppEnvs (items (index m ''env'')) = Inr (envsOf (items (index m ''env'')))"
    using w by (simp_all add: hasSetOf_assert [of "isMapOf wt_env"] expandAppEnvs_wt hasSetOf_all)
  have lists: "assertList (index m ''github'') = Inr (items (index m ''github''))"
    "assertList (index m ''git'') = Inr (items (index m ''git''))"
    using w by (simp_all add: hasListOf_assert [of wt_github] hasListOf_assert [of wt_git])
  have gh: "items (index m ''github'') \<noteq> [] \<Longrightarrow>
      expandAppGitHubSourceSpec (items (index m ''github'')) =
      Inr (githubOf (attrsOf (hd (items (index m ''github'')))))"
    using w by (simp add: expandAppGitHubSourceSpec_wt hasListOf_all)
  have git: "items (index m ''git'') \<noteq> [] \<Longrightarrow>
      expandAppGitSourceSpec (items (index m ''git'')) =
      Inr (gitOf (attrsOf (hd (items (index m ''git'')))))"
    using w by (simp add: expandAppGitSourceSpec_wt hasListOf_all)
  show ?thesis
    by (simp add: expandAppSpecWorkers_body_def workerOf_def strs ints env lists gh git firstOf_hd)
qed

lemma expandAppSpecDatabases_body_wt:
  assumes "wt_database m"
  shows "expandAppSpecDatabases_body (VMap m) = Inr (databaseOf m)"
  using assms
  by (simp add: wt_database_def expandAppSpecDatabases_body_def databaseOf_def
      hasString_assert hasBool_assert)




lemma flattenAppSpecServices_map:
  "flattenAppSpecServices h ss = map (flattenAppSpecServices_body h) (elems ss)"
  by (cases ss) (simp_all add: flattenAppSpecServices_def len_def elems_def rangeAssign_map)








lemma expandAppSpecDatabases_wt:
  "list_all (isMapOf wt_database) xs \<Longrightarrow>
   expandAppSpecDatabases xs = Inr (Some (map (\<lambda>v. databaseOf (attrsOf v)) xs))"
proof -
  have b: "isMapOf wt_database v \<Longrightarrow> expandAppSpecDatabases_body v = Inr (databaseOf (attrsOf v))" for v
    by (cases v) (simp_all add: expandAppSpecDatabases_body_wt)
  show "list_all (isMapOf wt_database) xs \<Longrightarrow> ?thesis"
    by (simp add: expandAppSpecDatabases_def rangeAppend_all [where P = "isMapOf wt_database", OF _ b])
qed








lemma wt_sampleEnv: "wt_env sampleEnv"
  by (auto simp: wt_env_def sampleEnv_def hasString_def)

lemma wt_sampleGitHub: "wt_github sampleGitHub"
  by (auto simp: wt_github_def sampleGitHub_def hasString_def hasBool_def)

lemma wt_sampleGit: "wt_git sampleGit"
  by (auto simp: wt_git_def sampleGit_def hasString_def)

lemma wt_sampleService: "wt_service sampleService"
  unfolding wt_service_def
  apply (intro conjI)
  apply (auto simp: sampleService_def)[1]
  apply (simp_all add: sampleService_def hasString_def hasInt_def hasSetOf_def hasListOf_def
      wt_sampleEnv wt_sampleGitHub wt_path_def)
  done


lemma wt_sampleSite: "wt_site sampleSite"
  unfolding wt_site_def
  apply (intro conjI)
  apply (auto simp: sampleSite_def)[1]
  apply (simp_all add: sampleSite_def hasString_def hasInt_def hasSetOf_def hasListOf_def
      wt_sampleEnv wt_sampleGit wt_path_def)
  done


lemma wt_sampleWorker: "wt_worker sampleWorker"
  unfolding wt_worker_def
  apply (intro conjI)
  apply (auto simp: sampleWorker_def)[1]
  apply (simp_all add: sampleWorker_def hasString_def hasInt_def hasSetOf_def hasListOf_def
      wt_sampleEnv wt_sampleGitHub wt_path_def)
  done


lemma wt_sampleDatabase: "wt_database sampleDatabase"
  unfolding wt_database_def
  apply (intro conjI)
  apply (auto simp: sampleDatabase_def)[1]
  apply (simp_all add: sampleDatabase_def hasString_def hasBool_def)
  done





lemma inBounds_Inr: "inBounds (Inr v)"
  by (simp add: inBounds_def)

lemma inBounds_andThen:
  "inBounds r \<Longrightarrow> (\<And>v. inBounds (f v)) \<Longrightarrow> inBounds (andThen r f)"
  by (cases r) (simp_all add: inBounds_def)

lemma inBounds_if:
  "(c \<Longrightarrow> inBounds a) \<Longrightarrow> (\<not> c \<Longrightarrow> inBounds b) \<Longrightarrow> inBounds (if c then a else b)"
  by simp

lemma inBounds_assertString: "inBounds (assertString v)"
  by (cases v) (simp_all add: inBounds_def)

lemma inBounds_assertInt: "inBounds (assertInt v)"
  by (cases v) (simp_all add: inBounds_def)

lemma inBounds_assertBool: "inBounds (assertBool v)"
  by (cases v) (simp_all add: inBounds_def)

lemma inBounds_assertList: "inBounds (assertList v)"
  by (cases v) (simp_all add: inBounds_def)

lemma inBounds_assertSet: "inBounds (assertSet v)"
  by (cases v) (simp_all add: inBounds_def)

lemma inBounds_assertMap: "inBounds (assertMap v)"
  by (cases v) (simp_all add: inBounds_def)

lemma inBounds_index0: "0 < length config \<Longrightarrow> inBounds (index0 config)"
  by (cases config) (simp_all add: inBounds_def)

lemma inBounds_rangeAppend:
  "(\<And>x. inBounds (f x)) \<Longrightarrow> inBounds (rangeAppend f xs acc)"
  by (induction xs arbitrary: acc) (simp_all add: inBounds_Inr inBounds_andThen)

lemmas inBounds_asserts =
  inBounds_Inr inBounds_assertString inBounds_assertInt inBounds_assertBool
  inBounds_assertList inBounds_assertSet inBounds_assertMap

lemma inBounds_expandAppGitHubSourceSpec:
  "0 < length config \<Longrightarrow> inBounds (expandAppGitHubSourceSpec config)"
  unfolding expandAppGitHubSourceSpec_def
  by (intro inBounds_andThen inBounds_asserts inBounds_index0)

lemma inBounds_expandAppGitSourceSpec:
  "0 < length config \<Longrightarrow> inBounds (expandAppGitSourceSpec config)"
  unfolding expandAppGitSourceSpec_def
  by (intro inBounds_andThen inBounds_asserts inBounds_index0)

lemma inBounds_expandAppHealthCheck:
  "0 < length config \<Longrightarrow> inBounds (expandAppHealthCheck config)"
  unfolding expandAppHealthCheck_def
  by (intro inBounds_andThen inBounds_asserts inBounds_index0)

lemma inBounds_expandAppEnvs: "inBounds (expandAppEnvs config)"
  unfolding expandAppEnvs_def expandAppEnvs_body_def
  by (intro inBounds_andThen inBounds_asserts inBounds_rangeAppend)

lemma inBounds_expandAppRoutes: "inBounds (expandAppRoutes config)"
  unfolding expandAppRoutes_def expandAppRoutes_body_def
  by (intro inBounds_andThen inBounds_asserts inBounds_rangeAppend)

lemma inBounds_expandAppDomainSpec: "inBounds (expandAppDomainSpec config)"
  unfolding expandAppDomainSpec_def expandAppDomainSpec_body_def
  by (intro inBounds_andThen inBounds_asserts inBounds_rangeAppend)

lemma inBounds_expandAppSpecDatabases: "inBounds (expandAppSpecDatabases config)"
  unfolding expandAppSpecDatabases_def expandAppSpecDatabases_body_def
  by (intro inBounds_andThen inBounds_asserts inBounds_rangeAppend)

lemmas inBounds_calls =
  inBounds_expandAppGitHubSourceSpec inBounds_expandAppGitSourceSpec
  inBounds_expandAppHealthCheck inBounds_expandAppEnvs inBounds_expandAppRoutes

lemma inBounds_expandAppSpecServices: "inBounds (expandAppSpecServices config)"
  unfolding expandAppSpecServices_def expandAppSpecServices_body_def
  by (intro inBounds_andThen inBounds_asserts inBounds_rangeAppend inBounds_if inBounds_calls)

lemma inBounds_expandAppSpecStaticSites: "inBounds (expandAppSpecStaticSites config)"
  unfolding expandAppSpecStaticSites_def expandAppSpecStaticSites_body_def
  by (intro inBounds_andThen inBounds_asserts inBounds_rangeAppend inBounds_if inBounds_calls)

lemma inBounds_expandAppSpecWorkers: "inBounds (expandAppSpecWorkers config)"
  unfolding expandAppSpecWorkers_def expandAppSpecWorkers_body_def
  by (intro inBounds_andThen inBounds_asserts inBounds_rangeAppend inBounds_if inBounds_calls)

lemma inBounds_expandAppSpec: "inBounds (expandAppSpec config)"
proof (cases config)
  case Nil
  then show ?thesis by (simp add: expandAppSpec_def inBounds_Inr)
next
  case (Cons c0 rest)
  have "inBounds (andThen (assertMap c0) (\<lambda>appSpecConfig.
            andThen (assertString (index appSpecConfig ''name'')) (\<lambda>name.
            andThen (assertString (index appSpecConfig ''region'')) (\<lambda>region.
            andThen (assertSet (index appSpecConfig ''domains'')) (\<lambda>domainSet.
            andThen (expandAppDomainSpec domainSet) (\<lambda>domains.
            andThen (assertList (index appSpecConfig ''service'')) (\<lambda>serviceList.
            andThen (expandAppSpecServices serviceList) (\<lambda>services.
            andThen (assertList (index appSpecConfig ''static_site'')) (\<lambda>siteList.
            andThen (expandAppSpecStaticSites siteList) (\<lambda>staticSites.
            andThen (assertList (index appSpecConfig ''worker'')) (\<lambda>workerList.
            andThen (expandAppSpecWorkers workerList) (\<lambda>workers.
            andThen (assertList (index appSpecConfig ''database'')) (\<lambda>databaseList.
            andThen (expandAppSpecDatabases databaseList) (\<lambda>databases.
            Inr \<lparr>Name = name, Region = region, Domains = domains, Services = services,
                 StaticSites = staticSites, Workers = workers,
                 Databases = databases\<rparr>))))))))))))))"
    by (intro inBounds_andThen inBounds_asserts inBounds_expandAppDomainSpec
        inBounds_expandAppSpecServices inBounds_expandAppSpecStaticSites
        inBounds_expandAppSpecWorkers inBounds_expandAppSpecDatabases)
  with Cons show ?thesis
    by (simp add: expandAppSpec_def inBounds_Inr)
qed

lemma expandAppSpecServices_single:
  "wt_service m \<Longrightarrow> expandAppSpecServices [VMap m] = Inr (Some [serviceOf m])"
  by (simp add: expandAppSpecServices_def expandAppSpecServices_body_wt)

lemma expandAppSpecStaticSites_single:
  "wt_site m \<Longrightarrow> expandAppSpecStaticSites [VMap m] = Inr (Some [siteOf m])"
  by (simp add: expandAppSpecStaticSites_def expandAppSpecStaticSites_body_wt)

lemma expandAppSpecWorkers_single:
  "wt_worker m \<Longrightarrow> expandAppSpecWorkers [VMap m] = Inr (Some [workerOf m])"
  by (simp add: expandAppSpecWorkers_def expandAppSpecWorkers_body_wt)

lemma firstOf_None: "firstOf f xs = None \<longleftrightarrow> xs = []"
  by (cases xs) simp_all

lemma routesOf_None: "routesOf xs = None \<longleftrightarrow> xs = []"
  by (simp add: routesOf_def)

lemma firstOf_github:
  "list_all (isMapOf wt_github) xs \<Longrightarrow> xs \<noteq> [] \<Longrightarrow>
   \<exists>g. firstOf githubOf xs = Some g \<and> expandAppGitHubSourceSpec xs = Inr g"
  by (simp add: expandAppGitHubSourceSpec_wt firstOf_hd)

lemma firstOf_git:
  "list_all (isMapOf wt_git) xs \<Longrightarrow> xs \<noteq> [] \<Longrightarrow>
   \<exists>g. firstOf gitOf xs = Some g \<and> expandAppGitSourceSpec xs = Inr g"
  by (simp add: expandAppGitSourceSpec_wt firstOf_hd)

lemma firstOf_healthCheck:
  "list_all (isMapOf wt_path) xs \<Longrightarrow> xs \<noteq> [] \<Longrightarrow>
   \<exists>c. firstOf healthCheckOf xs = Some c \<and> expandAppHealthCheck xs = Inr c"
  by (simp add: expandAppHealthCheck_wt firstOf_hd)

lemma routesOf_expand:
  "list_all (isMapOf wt_path) xs \<Longrightarrow> xs \<noteq> [] \<Longrightarrow> expandAppRoutes xs = Inr (routesOf xs)"
  by (simp add: expandAppRoutes_wt routesOf_def)

lemma dom_flattenAppSpecServices_body:
  "dom (flattenAppSpecServices_body h s) =
     {''name'', ''run_command'', ''build_command'', ''github'', ''git'', ''http_port'', ''routes'',
      ''dockerfile_path'', ''env'', ''health_check'', ''instance_size_slug'', ''instance_count'',
      ''source_dir'', ''environment_slug''}"
  by (auto simp: flattenAppSpecServices_body_def)

lemma map_add_restrict_dom: "(m ++ b) |` dom b = b"
  by (rule ext) (auto simp: restrict_map_def map_add_def split: option.splits)

lemma dom_appSpecComponentBase:
  "dom appSpecComponentBase =
     {''name'', ''git'', ''github'', ''dockerfile_path'', ''build_command'', ''env'', ''routes'',
      ''source_dir'', ''environment_slug''}"
  by (auto simp: appSpecComponentBase_def)

lemma base_misses:
  "appSpecComponentBase ''run_command'' = None"
  "appSpecComponentBase ''http_port'' = None"
  "appSpecComponentBase ''instance_size_slug'' = None"
  "appSpecComponentBase ''instance_count'' = None"
  "appSpecComponentBase ''health_check'' = None"
  "appSpecComponentBase ''output_dir'' = None"
  "appSpecComponentBase ''index_document'' = None"
  "appSpecComponentBase ''error_document'' = None"
  by (simp_all add: appSpecComponentBase_def)

lemma wt_env_any_strings:
  "wt_env m \<Longrightarrow> wt_env (m(''scope'' \<mapsto> VString scope, ''type'' \<mapsto> VString type))"
  by (auto simp: wt_env_def hasString_def)

lemma wt_database_any_engine:
  "wt_database d \<Longrightarrow> wt_database (d(''engine'' \<mapsto> VString engine))"
  by (auto simp: wt_database_def hasString_def hasBool_def)

lemma wt_oddEnv: "wt_env oddEnv"
  by (auto simp: wt_env_def oddEnv_def hasString_def)

lemma wt_oddDatabase: "wt_database oddDatabase"
  unfolding wt_database_def
  apply (intro conjI)
  apply (auto simp: oddDatabase_def)[1]
  apply (simp_all add: oddDatabase_def hasString_def hasBool_def)
  done

lemma HasPrefix_prefix: "HasPrefix s pre \<longleftrightarrow> prefix pre s"
proof
  assume "HasPrefix s pre"
  then have "take (length pre) s = pre" by (simp add: HasPrefix_def)
  then show "prefix pre s" by (metis take_is_prefix)
next
  assume "prefix pre s"
  then obtain zs where "s = pre @ zs" by (auto simp: prefix_def)
  then show "HasPrefix s pre" by (simp add: HasPrefix_def)
qed

lemma hasPrefixLoop_prefixes:
  "hasPrefixLoop bucketName prefixes False \<longleftrightarrow>
     (prefix ''mybucket.'' bucketName \<or> prefix ''mylogs.'' bucketName
      \<or> prefix ''tf-acc'' bucketName \<or> prefix ''tf-object-test'' bucketName
      \<or> prefix ''tf-test'' bucketName \<or> prefix ''tf-emr-bootstrap'' bucketName)"
  by (simp add: prefixes_def HasPrefix_prefix)

lemma sweepLoop_calls:
  "\<exists>new. fst (sweepLoop env region buckets calls) = calls @ new
     \<and> prefix new (filter (inScope env region) (map (\<lambda>b. StringValue (bucket_Name b)) buckets))
     \<and> (snd (sweepLoop env region buckets calls) = Returned None \<longrightarrow>
          new = filter (inScope env region) (map (\<lambda>b. StringValue (bucket_Name b)) buckets))"
proof (induction buckets arbitrary: calls)
  case Nil
  then show ?case by simp
next
  case (Cons bucket rest)
  let ?n = "StringValue (bucket_Name bucket)"
  show ?case
  proof (cases "hasPrefixLoop ?n prefixes False")
    case False
    then have "\<not> inScope env region ?n"
      by (simp add: inScope_def hasPrefixLoop_prefixes)
    with False Cons.IH [of calls] show ?thesis by (simp add: Let_def)
  next
    case True
    note p = True
    obtain bucketRegion err where t: "testS3BucketRegion env ?n = (bucketRegion, err)"
      by (cases "testS3BucketRegion env ?n")
    show ?thesis
    proof (cases err)
      case (Some e)
      with t have "\<not> inScope env region ?n" by (simp add: inScope_def)
      with p t Some Cons.IH [of calls] show ?thesis by (simp add: Let_def)
    next
      case None
      show ?thesis
      proof (cases "bucketRegion = region")
        case False
        with t None have "\<not> inScope env region ?n" by (simp add: inScope_def)
        with p t None False Cons.IH [of calls] show ?thesis by (simp add: Let_def)
      next
        case True
        with t None p have s: "inScope env region ?n"
          by (simp add: inScope_def hasPrefixLoop_prefixes)
        show ?thesis
        proof (cases "deleteAllS3ObjectVersions env ?n")
          case (Some e)
          with p t None True s show ?thesis by (simp add: Let_def)
        next
          case None2: None
          from Cons.IH [of "calls @ [?n]"] obtain new where
            n: "fst (sweepLoop env region rest (calls @ [?n])) = (calls @ [?n]) @ new"
            "prefix new (filter (inScope env region) (map (\<lambda>b. StringValue (bucket_Name b)) rest))"
            "snd (sweepLoop env region rest (calls @ [?n])) = Returned None \<longrightarrow>
               new = filter (inScope env region) (map (\<lambda>b. StringValue (bucket_Name b)) rest)"
            by blast
          have e: "sweepLoop env region (bucket # rest) calls = sweepLoop env region rest (calls @ [?n])"
            using p t None True None2 by (simp add: Let_def)
          show ?thesis
            by (rule exI [of _ "?n # new"]) (use n s e in simp)
        qed
      qed
    qed
  qed
qed

lemma sweep_calls:
  "prefix (fst (testSweepS3BucketObjects env region))
     (filter (inScope env region) (map (\<lambda>b. StringValue (bucket_Name b)) (fst (ListBuckets env))))"
proof -
  obtain buckets err where l: "ListBuckets env = (buckets, err)"
    by (cases "ListBuckets env")
  from sweepLoop_calls [of env region buckets "[]"]
  have "prefix (fst (sweepLoop env region buckets []))
          (filter (inScope env region) (map (\<lambda>b. StringValue (bucket_Name b)) buckets))"
    by auto
  with l show ?thesis
    by (simp add: testSweepS3BucketObjects_def split: option.splits)
qed

lemma sample_sweep:
  "testSweepS3BucketObjects sampleSweepEnv ''nyc3'' = ([''tf-acc-1''], Returned None)"
  by (simp add: testSweepS3BucketObjects_def sampleSweepEnv_def testSweepSkipSweepError_def
      Let_def prefixes_def HasPrefix_def StringValue_def testS3BucketRegion_def)



























lemma dom_schemas:
  "dom (schemaOf appSpecEnvSchema) = {''value'', ''scope'', ''key'', ''type''}"
  "dom appSpecGitHubSourceSchema = {''repo'', ''branch'', ''deploy_on_push''}"
  "dom appSpecGitSourceSchema = {''repo_clone_url'', ''branch''}"
  "dom appSpecRouteSchema = {''path''}"
  "dom appSpecHealthCheckSchema = {''path''}"
  "dom (schemaOf appSpecDatabaseSchema) =
     {''name'', ''engine'', ''version'', ''production'', ''cluster_name'', ''db_name'',
      ''db_user''}"
  "dom appSpecSchema =
     {''name'', ''region'', ''domains'', ''service'', ''static_site'', ''worker'', ''database''}"
  by (auto simp: appSpecEnvSchema_def appSpecGitHubSourceSchema_def appSpecGitSourceSchema_def
      appSpecRouteSchema_def appSpecHealthCheckSchema_def appSpecDatabaseSchema_def
      appSpecSchema_def)



lemma dom_component_schemas:
  "dom (schemaOf appSpecServicesSchema) =
     {''name'', ''run_command'', ''build_command'', ''http_port'', ''dockerfile_path'',
      ''env'', ''instance_size_slug'', ''instance_count'', ''source_dir'',
      ''environment_slug'', ''github'', ''git'', ''routes'', ''health_check''}"
  "dom (schemaOf appSpecStaticSiteSchema) =
     {''name'', ''build_command'', ''dockerfile_path'', ''env'', ''source_dir'',
      ''output_dir'', ''index_document'', ''error_document'', ''environment_slug'',
      ''github'', ''git'', ''routes''}"
  "dom (schemaOf appSpecWorkerSchema) =
     {''name'', ''run_command'', ''build_command'', ''dockerfile_path'', ''env'',
      ''instance_size_slug'', ''instance_count'', ''source_dir'', ''environment_slug'',
      ''github'', ''git'', ''routes''}"
  by (simp_all add: appSpecServicesSchema_def appSpecStaticSiteSchema_def
      appSpecWorkerSchema_def Let_def dom_appSpecComponentBase insert_commute)

lemma wt_keys_follow_schema:
  "wt_env m \<Longrightarrow> dom m = dom (schemaOf appSpecEnvSchema)"
  "wt_github m \<Longrightarrow> dom m = dom appSpecGitHubSourceSchema"
  "wt_git m \<Longrightarrow> dom m = dom appSpecGitSourceSchema"
  "wt_path m \<Longrightarrow> dom m = dom appSpecRouteSchema"
  "wt_path m \<Longrightarrow> dom m = dom appSpecHealthCheckSchema"
  "wt_service m \<Longrightarrow> dom m = dom (schemaOf appSpecServicesSchema)"
  "wt_site m \<Longrightarrow> dom m = dom (schemaOf appSpecStaticSiteSchema)"
  "wt_worker m \<Longrightarrow> dom m = dom (schemaOf appSpecWorkerSchema)"
  "wt_database m \<Longrightarrow> dom m = dom (schemaOf appSpecDatabaseSchema)"
  "wt_appSpec m \<Longrightarrow> dom m = dom appSpecSchema"
  unfolding dom_schemas dom_component_schemas
  by (simp_all add: wt_env_def wt_github_def wt_git_def wt_path_def wt_service_def wt_site_def
      wt_worker_def wt_database_def wt_appSpec_def)

section \<open>Claims\<close>

subsection \<open>C1\<close>




subsection \<open>C2\<close>




subsection \<open>C3\<close>

text \<open>
  C3. The list \<open>flattenAppSpecServices\<close> returns has the length of its input, and its
  i-th map holds exactly the fourteen keys of a service, with the fields of the i-th
  service: the strings and the two integers (converted with \<^verbatim>\<open>int\<close>) as they are, and
  \<open>GitHub\<close>, \<open>Git\<close>, \<open>Routes\<close>, \<open>Envs\<close> and \<open>HealthCheck\<close> flattened by their own
  functions.
\<close>

theorem flattenAppSpecServices_elementwise:
  "length (flattenAppSpecServices h services) = len services
   \<and> (\<forall>i < len services.
        dom (flattenAppSpecServices h services ! i) =
          {''name'', ''run_command'', ''build_command'', ''github'', ''git'', ''http_port'',
           ''routes'', ''dockerfile_path'', ''env'', ''health_check'', ''instance_size_slug'',
           ''instance_count'', ''source_dir'', ''environment_slug''}
        \<and> (flattenAppSpecServices h services ! i) ''name''
            = Some (VString (svc_Name (elems services ! i)))
        \<and> (flattenAppSpecServices h services ! i) ''run_command''
            = Some (VString (svc_RunCommand (elems services ! i)))
        \<and> (flattenAppSpecServices h services ! i) ''build_command''
            = Some (VString (svc_BuildCommand (elems services ! i)))
        \<and> (flattenAppSpecServices h services ! i) ''http_port''
            = Some (VInt (int_of_int64 (svc_HTTPPort (elems services ! i))))
        \<and> (flattenAppSpecServices h services ! i) ''instance_size_slug''
            = Some (VString (svc_InstanceSizeSlug (elems services ! i)))
        \<and> (flattenAppSpecServices h services ! i) ''instance_count''
            = Some (VInt (int_of_int64 (svc_InstanceCount (elems services ! i))))
        \<and> (flattenAppSpecServices h services ! i) ''source_dir''
            = Some (VString (svc_SourceDir (elems services ! i)))
        \<and> (flattenAppSpecServices h services ! i) ''environment_slug''
            = Some (VString (svc_EnvironmentSlug (elems services ! i)))
        \<and> (flattenAppSpecServices h services ! i) ''dockerfile_path''
            = Some (VString (svc_DockerfilePath (elems services ! i)))
        \<and> (flattenAppSpecServices h services ! i) ''github''
            = Some (VList (flattenAppGitHubSourceSpec (svc_GitHub (elems services ! i))))
        \<and> (flattenAppSpecServices h services ! i) ''git''
            = Some (VList (flattenAppGitSourceSpec (svc_Git (elems services ! i))))
        \<and> (flattenAppSpecServices h services ! i) ''routes''
            = Some (VList (flattenAppRoutes (svc_Routes (elems services ! i))))
        \<and> (flattenAppSpecServices h services ! i) ''env''
            = Some (VSet (flattenAppEnvs h (svc_Envs (elems services ! i))))
        \<and> (flattenAppSpecServices h services ! i) ''health_check''
            = Some (VList (flattenAppHealthCheck (svc_HealthCheck (elems services ! i)))))"
proof -
  have n: "len services = length (elems services)"
    by (cases services) (simp_all add: len_def elems_def)
  have e: "i < length (elems services) \<Longrightarrow>
      flattenAppSpecServices h services ! i = flattenAppSpecServices_body h (elems services ! i)" for i
    by (simp add: flattenAppSpecServices_map)
  show ?thesis
    by (simp add: n e dom_flattenAppSpecServices_body)
       (simp add: flattenAppSpecServices_map flattenAppSpecServices_body_def)
qed

text \<open>The second of two services is at index 1 of the result.\<close>

theorem flattenAppSpecServices_elementwise_witness:
  "(1::nat) < len (Some [webService, apiService])
   \<and> length (flattenAppSpecServices appendOrder (Some [webService, apiService])) = 2
   \<and> (flattenAppSpecServices appendOrder (Some [webService, apiService]) ! 1) ''name''
        = Some (VString ''api'')
   \<and> (flattenAppSpecServices appendOrder (Some [webService, apiService]) ! 1) ''http_port''
        = Some (VInt 9090)
   \<and> (flattenAppSpecServices appendOrder (Some [webService, apiService]) ! 1) ''routes''
        = Some (VList [])"
proof -
  have l: "(1::nat) < len (Some [webService, apiService])"
    by (simp add: len_def)
  have v: "elems (Some [webService, apiService]) ! 1 = apiService"
    by (simp add: elems_def)
  have a: "svc_Name apiService = ''api''" "int_of_int64 (svc_HTTPPort apiService) = 9090"
    "flattenAppRoutes (svc_Routes apiService) = []"
    by (simp_all add: apiService_def int_of_int64_def flattenAppRoutes_def)
  note t = flattenAppSpecServices_elementwise [of appendOrder "Some [webService, apiService]"]
  from t have n: "length (flattenAppSpecServices appendOrder (Some [webService, apiService])) = 2"
    by (simp add: len_def)
  from t l have
    "(flattenAppSpecServices appendOrder (Some [webService, apiService]) ! 1) ''name''
       = Some (VString (svc_Name (elems (Some [webService, apiService]) ! 1)))"
    "(flattenAppSpecServices appendOrder (Some [webService, apiService]) ! 1) ''http_port''
       = Some (VInt (int_of_int64 (svc_HTTPPort (elems (Some [webService, apiService]) ! 1))))"
    "(flattenAppSpecServices appendOrder (Some [webService, apiService]) ! 1) ''routes''
       = Some (VList (flattenAppRoutes (svc_Routes (elems (Some [webService, apiService]) ! 1))))"
    by blast+
  with l n show ?thesis
    by (simp only: v a)
qed

subsection \<open>C4\<close>

text \<open>
  C4. For every well-typed service configuration map, \<open>expandAppSpecServices\<close> sets the
  \<open>GitHub\<close>, \<open>Git\<close>, \<open>Routes\<close> and \<open>HealthCheck\<close> fields of the service it builds if
  and only if the \<^verbatim>\<open>github\<close>, \<^verbatim>\<open>git\<close>, \<^verbatim>\<open>routes\<close> and \<^verbatim>\<open>health_check\<close> lists are
  non-empty, to the expansion of that list; a field of an empty list stays nil; and the
  other fields are read from their own keys, whatever those lists hold. The same holds
  for \<open>expandAppSpecStaticSites\<close> (\<open>GitHub\<close>, \<open>Git\<close>, \<open>Routes\<close>) and
  \<open>expandAppSpecWorkers\<close> (\<open>GitHub\<close>, \<open>Git\<close>).
\<close>

theorem optional_blocks_set_iff_present:
  "(wt_service m \<longrightarrow>
      (\<exists>s. expandAppSpecServices [VMap m] = Inr (Some [s])
         \<and> (svc_GitHub s = None \<longleftrightarrow> items (index m ''github'') = [])
         \<and> (items (index m ''github'') \<noteq> [] \<longrightarrow>
              (\<exists>g. svc_GitHub s = Some g \<and> expandAppGitHubSourceSpec (items (index m ''github'')) = Inr g))
         \<and> (svc_Git s = None \<longleftrightarrow> items (index m ''git'') = [])
         \<and> (items (index m ''git'') \<noteq> [] \<longrightarrow>
              (\<exists>g. svc_Git s = Some g \<and> expandAppGitSourceSpec (items (index m ''git'')) = Inr g))
         \<and> (svc_Routes s = None \<longleftrightarrow> items (index m ''routes'') = [])
         \<and> (items (index m ''routes'') \<noteq> [] \<longrightarrow>
              expandAppRoutes (items (index m ''routes'')) = Inr (svc_Routes s))
         \<and> (svc_HealthCheck s = None \<longleftrightarrow> items (index m ''health_check'') = [])
         \<and> (items (index m ''health_check'') \<noteq> [] \<longrightarrow>
              (\<exists>c. svc_HealthCheck s = Some c
                 \<and> expandAppHealthCheck (items (index m ''health_check'')) = Inr c))
         \<and> svc_Name s = str (index m ''name'')
         \<and> svc_RunCommand s = str (index m ''run_command'')
         \<and> svc_BuildCommand s = str (index m ''build_command'')
         \<and> svc_HTTPPort s = int64_of_int (num (index m ''http_port''))
         \<and> svc_DockerfilePath s = str (index m ''dockerfile_path'')
         \<and> expandAppEnvs (items (index m ''env'')) = Inr (svc_Envs s)
         \<and> svc_InstanceSizeSlug s = str (index m ''instance_size_slug'')
         \<and> svc_InstanceCount s = int64_of_int (num (index m ''instance_count''))
         \<and> svc_SourceDir s = str (index m ''source_dir'')
         \<and> svc_EnvironmentSlug s = str (index m ''environment_slug'')))
   \<and> (wt_site m \<longrightarrow>
      (\<exists>s. expandAppSpecStaticSites [VMap m] = Inr (Some [s])
         \<and> (site_GitHub s = None \<longleftrightarrow> items (index m ''github'') = [])
         \<and> (items (index m ''github'') \<noteq> [] \<longrightarrow>
              (\<exists>g. site_GitHub s = Some g \<and> expandAppGitHubSourceSpec (items (index m ''github'')) = Inr g))
         \<and> (site_Git s = None \<longleftrightarrow> items (index m ''git'') = [])
         \<and> (items (index m ''git'') \<noteq> [] \<longrightarrow>
              (\<exists>g. site_Git s = Some g \<and> expandAppGitSourceSpec (items (index m ''git'')) = Inr g))
         \<and> (site_Routes s = None \<longleftrightarrow> items (index m ''routes'') = [])
         \<and> (items (index m ''routes'') \<noteq> [] \<longrightarrow>
              expandAppRoutes (items (index m ''routes'')) = Inr (site_Routes s))
         \<and> site_Name s = str (index m ''name'')
         \<and> site_BuildCommand s = str (index m ''build_command'')
         \<and> site_DockerfilePath s = str (index m ''dockerfile_path'')
         \<and> expandAppEnvs (items (index m ''env'')) = Inr (site_Envs s)
         \<and> site_SourceDir s = str (index m ''source_dir'')
         \<and> site_OutputDir s = str (index m ''output_dir'')
         \<and> site_IndexDocument s = str (index m ''index_document'')
         \<and> site_ErrorDocument s = str (index m ''error_document'')
         \<and> site_EnvironmentSlug s = str (index m ''environment_slug'')))
   \<and> (wt_worker m \<longrightarrow>
      (\<exists>s. expandAppSpecWorkers [VMap m] = Inr (Some [s])
         \<and> (wrk_GitHub s = None \<longleftrightarrow> items (index m ''github'') = [])
         \<and> (items (index m ''github'') \<noteq> [] \<longrightarrow>
              (\<exists>g. wrk_GitHub s = Some g \<and> expandAppGitHubSourceSpec (items (index m ''github'')) = Inr g))
         \<and> (wrk_Git s = None \<longleftrightarrow> items (index m ''git'') = [])
         \<and> (items (index m ''git'') \<noteq> [] \<longrightarrow>
              (\<exists>g. wrk_Git s = Some g \<and> expandAppGitSourceSpec (items (index m ''git'')) = Inr g))
         \<and> wrk_Name s = str (index m ''name'')
         \<and> wrk_RunCommand s = str (index m ''run_command'')
         \<and> wrk_BuildCommand s = str (index m ''build_command'')
         \<and> wrk_DockerfilePath s = str (index m ''dockerfile_path'')
         \<and> expandAppEnvs (items (index m ''env'')) = Inr (wrk_Envs s)
         \<and> wrk_InstanceSizeSlug s = str (index m ''instance_size_slug'')
         \<and> wrk_InstanceCount s = int64_of_int (num (index m ''instance_count''))
         \<and> wrk_SourceDir s = str (index m ''source_dir'')
         \<and> wrk_EnvironmentSlug s = str (index m ''environment_slug'')))"
proof (intro conjI impI)
  assume w: "wt_service m"
  note u = w [unfolded wt_service_def]
  have l: "list_all (isMapOf wt_github) (items (index m ''github''))"
    "list_all (isMapOf wt_git) (items (index m ''git''))"
    "list_all (isMapOf wt_path) (items (index m ''routes''))"
    "list_all (isMapOf wt_path) (items (index m ''health_check''))"
    "list_all (isMapOf wt_env) (items (index m ''env''))"
    using u by (simp_all add: hasListOf_all hasSetOf_all)
  show "\<exists>s. expandAppSpecServices [VMap m] = Inr (Some [s])
         \<and> (svc_GitHub s = None \<longleftrightarrow> items (index m ''github'') = [])
         \<and> (items (index m ''github'') \<noteq> [] \<longrightarrow>
              (\<exists>g. svc_GitHub s = Some g \<and> expandAppGitHubSourceSpec (items (index m ''github'')) = Inr g))
         \<and> (svc_Git s = None \<longleftrightarrow> items (index m ''git'') = [])
         \<and> (items (index m ''git'') \<noteq> [] \<longrightarrow>
              (\<exists>g. svc_Git s = Some g \<and> expandAppGitSourceSpec (items (index m ''git'')) = Inr g))
         \<and> (svc_Routes s = None \<longleftrightarrow> items (index m ''routes'') = [])
         \<and> (items (index m ''routes'') \<noteq> [] \<longrightarrow>
              expandAppRoutes (items (index m ''routes'')) = Inr (svc_Routes s))
         \<and> (svc_HealthCheck s = None \<longleftrightarrow> items (index m ''health_check'') = [])
         \<and> (items (index m ''health_check'') \<noteq> [] \<longrightarrow>
              (\<exists>c. svc_HealthCheck s = Some c
                 \<and> expandAppHealthCheck (items (index m ''health_check'')) = Inr c))
         \<and> svc_Name s = str (index m ''name'')
         \<and> svc_RunCommand s = str (index m ''run_command'')
         \<and> svc_BuildCommand s = str (index m ''build_command'')
         \<and> svc_HTTPPort s = int64_of_int (num (index m ''http_port''))
         \<and> svc_DockerfilePath s = str (index m ''dockerfile_path'')
         \<and> expandAppEnvs (items (index m ''env'')) = Inr (svc_Envs s)
         \<and> svc_InstanceSizeSlug s = str (index m ''instance_size_slug'')
         \<and> svc_InstanceCount s = int64_of_int (num (index m ''instance_count''))
         \<and> svc_SourceDir s = str (index m ''source_dir'')
         \<and> svc_EnvironmentSlug s = str (index m ''environment_slug'')"
    by (rule exI [of _ "serviceOf m"])
       (simp add: expandAppSpecServices_single [OF w] serviceOf_def firstOf_None routesOf_None
          firstOf_github firstOf_git firstOf_healthCheck routesOf_expand expandAppEnvs_wt l)
next
  assume w: "wt_site m"
  note u = w [unfolded wt_site_def]
  have l: "list_all (isMapOf wt_github) (items (index m ''github''))"
    "list_all (isMapOf wt_git) (items (index m ''git''))"
    "list_all (isMapOf wt_path) (items (index m ''routes''))"
    "list_all (isMapOf wt_env) (items (index m ''env''))"
    using u by (simp_all add: hasListOf_all hasSetOf_all)
  show "\<exists>s. expandAppSpecStaticSites [VMap m] = Inr (Some [s])
         \<and> (site_GitHub s = None \<longleftrightarrow> items (index m ''github'') = [])
         \<and> (items (index m ''github'') \<noteq> [] \<longrightarrow>
              (\<exists>g. site_GitHub s = Some g \<and> expandAppGitHubSourceSpec (items (index m ''github'')) = Inr g))
         \<and> (site_Git s = None \<longleftrightarrow> items (index m ''git'') = [])
         \<and> (items (index m ''git'') \<noteq> [] \<longrightarrow>
              (\<exists>g. site_Git s = Some g \<and> expandAppGitSourceSpec (items (index m ''git'')) = Inr g))
         \<and> (site_Routes s = None \<longleftrightarrow> items (index m ''routes'') = [])
         \<and> (items (index m ''routes'') \<noteq> [] \<longrightarrow>
              expandAppRoutes (items (index m ''routes'')) = Inr (site_Routes s))
         \<and> site_Name s = str (index m ''name'')
         \<and> site_BuildCommand s = str (index m ''build_command'')
         \<and> site_DockerfilePath s = str (index m ''dockerfile_path'')
         \<and> expandAppEnvs (items (index m ''env'')) = Inr (site_Envs s)
         \<and> site_SourceDir s = str (index m ''source_dir'')
         \<and> site_OutputDir s = str (index m ''output_dir'')
         \<and> site_IndexDocument s = str (index m ''index_document'')
         \<and> site_ErrorDocument s = str (index m ''error_document'')
         \<and> site_EnvironmentSlug s = str (index m ''environment_slug'')"
    by (rule exI [of _ "siteOf m"])
       (simp add: expandAppSpecStaticSites_single [OF w] siteOf_def firstOf_None routesOf_None
          firstOf_github firstOf_git routesOf_expand expandAppEnvs_wt l)
next
  assume w: "wt_worker m"
  note u = w [unfolded wt_worker_def]
  have l: "list_all (isMapOf wt_github) (items (index m ''github''))"
    "list_all (isMapOf wt_git) (items (index m ''git''))"
    "list_all (isMapOf wt_env) (items (index m ''env''))"
    using u by (simp_all add: hasListOf_all hasSetOf_all)
  show "\<exists>s. expandAppSpecWorkers [VMap m] = Inr (Some [s])
         \<and> (wrk_GitHub s = None \<longleftrightarrow> items (index m ''github'') = [])
         \<and> (items (index m ''github'') \<noteq> [] \<longrightarrow>
              (\<exists>g. wrk_GitHub s = Some g \<and> expandAppGitHubSourceSpec (items (index m ''github'')) = Inr g))
         \<and> (wrk_Git s = None \<longleftrightarrow> items (index m ''git'') = [])
         \<and> (items (index m ''git'') \<noteq> [] \<longrightarrow>
              (\<exists>g. wrk_Git s = Some g \<and> expandAppGitSourceSpec (items (index m ''git'')) = Inr g))
         \<and> wrk_Name s = str (index m ''name'')
         \<and> wrk_RunCommand s = str (index m ''run_command'')
         \<and> wrk_BuildCommand s = str (index m ''build_command'')
         \<and> wrk_DockerfilePath s = str (index m ''dockerfile_path'')
         \<and> expandAppEnvs (items (index m ''env'')) = Inr (wrk_Envs s)
         \<and> wrk_InstanceSizeSlug s = str (index m ''instance_size_slug'')
         \<and> wrk_InstanceCount s = int64_of_int (num (index m ''instance_count''))
         \<and> wrk_SourceDir s = str (index m ''source_dir'')
         \<and> wrk_EnvironmentSlug s = str (index m ''environment_slug'')"
    by (rule exI [of _ "workerOf m"])
       (simp add: expandAppSpecWorkers_single [OF w] workerOf_def firstOf_None
          firstOf_github firstOf_git expandAppEnvs_wt l)
qed

text \<open>
  The sample service has a \<^verbatim>\<open>github\<close>, a \<^verbatim>\<open>routes\<close> and a \<^verbatim>\<open>health_check\<close> block and no
  \<^verbatim>\<open>git\<close> block; the sample static site has a \<^verbatim>\<open>git\<close> block only; the sample worker a
  \<^verbatim>\<open>github\<close> block only.
\<close>

theorem optional_blocks_witness:
  "wt_service sampleService \<and> wt_site sampleSite \<and> wt_worker sampleWorker
   \<and> (\<exists>s. expandAppSpecServices [VMap sampleService] = Inr (Some [s])
          \<and> svc_GitHub s \<noteq> None \<and> svc_Git s = None \<and> svc_Routes s \<noteq> None
          \<and> svc_HealthCheck s \<noteq> None \<and> svc_Name s = ''web'')
   \<and> (\<exists>s. expandAppSpecStaticSites [VMap sampleSite] = Inr (Some [s])
          \<and> site_GitHub s = None \<and> site_Git s \<noteq> None \<and> site_Routes s = None
          \<and> site_Name s = ''docs'')
   \<and> (\<exists>s. expandAppSpecWorkers [VMap sampleWorker] = Inr (Some [s])
          \<and> wrk_GitHub s \<noteq> None \<and> wrk_Git s = None \<and> wrk_Name s = ''queue'')"
proof -
  have i1: "items (index sampleService ''github'') \<noteq> []"
    "items (index sampleService ''git'') = []"
    "items (index sampleService ''routes'') \<noteq> []"
    "items (index sampleService ''health_check'') \<noteq> []"
    "str (index sampleService ''name'') = ''web''"
    by (simp_all add: sampleService_def index_def)
  have i2: "items (index sampleSite ''github'') = []"
    "items (index sampleSite ''git'') \<noteq> []"
    "items (index sampleSite ''routes'') = []"
    "str (index sampleSite ''name'') = ''docs''"
    by (simp_all add: sampleSite_def index_def)
  have i3: "items (index sampleWorker ''github'') \<noteq> []"
    "items (index sampleWorker ''git'') = []"
    "str (index sampleWorker ''name'') = ''queue''"
    by (simp_all add: sampleWorker_def index_def)
  have 1: "\<exists>s. expandAppSpecServices [VMap sampleService] = Inr (Some [s])
          \<and> svc_GitHub s \<noteq> None \<and> svc_Git s = None \<and> svc_Routes s \<noteq> None
          \<and> svc_HealthCheck s \<noteq> None \<and> svc_Name s = ''web''"
    apply (rule exE [OF optional_blocks_set_iff_present [of sampleService, THEN conjunct1, rule_format,
        OF wt_sampleService]])
    subgoal premises p for s
      using p [THEN conjunct1] p [THEN conjunct2, THEN conjunct1] p [THEN conjunct2, THEN conjunct2, THEN conjunct2, THEN conjunct1] p [THEN conjunct2, THEN conjunct2, THEN conjunct2, THEN conjunct2, THEN conjunct2, THEN conjunct1] p [THEN conjunct2, THEN conjunct2, THEN conjunct2, THEN conjunct2, THEN conjunct2, THEN conjunct2, THEN conjunct2, THEN conjunct1] p [THEN conjunct2, THEN conjunct2, THEN conjunct2, THEN conjunct2, THEN conjunct2, THEN conjunct2, THEN conjunct2, THEN conjunct2, THEN conjunct2, THEN conjunct1]
      by (intro exI [of _ s]) (simp add: i1)
    done
  have 2: "\<exists>s. expandAppSpecStaticSites [VMap sampleSite] = Inr (Some [s])
          \<and> site_GitHub s = None \<and> site_Git s \<noteq> None \<and> site_Routes s = None
          \<and> site_Name s = ''docs''"
    apply (rule exE [OF optional_blocks_set_iff_present [of sampleSite, THEN conjunct2, THEN conjunct1, rule_format,
        OF wt_sampleSite]])
    subgoal premises p for s
      using p [THEN conjunct1] p [THEN conjunct2, THEN conjunct1] p [THEN conjunct2, THEN conjunct2, THEN conjunct2, THEN conjunct1] p [THEN conjunct2, THEN conjunct2, THEN conjunct2, THEN conjunct2, THEN conjunct2, THEN conjunct1] p [THEN conjunct2, THEN conjunct2, THEN conjunct2, THEN conjunct2, THEN conjunct2, THEN conjunct2, THEN conjunct2, THEN conjunct1]
      by (intro exI [of _ s]) (simp add: i2)
    done
  have 3: "\<exists>s. expandAppSpecWorkers [VMap sampleWorker] = Inr (Some [s])
          \<and> wrk_GitHub s \<noteq> None \<and> wrk_Git s = None \<and> wrk_Name s = ''queue''"
    apply (rule exE [OF optional_blocks_set_iff_present [of sampleWorker, THEN conjunct2, THEN conjunct2, rule_format,
        OF wt_sampleWorker]])
    subgoal premises p for s
      using p [THEN conjunct1] p [THEN conjunct2, THEN conjunct1] p [THEN conjunct2, THEN conjunct2, THEN conjunct2, THEN conjunct1] p [THEN conjunct2, THEN conjunct2, THEN conjunct2, THEN conjunct2, THEN conjunct2, THEN conjunct1]
      by (intro exI [of _ s]) (simp add: i3)
    done
  show ?thesis
    by (intro conjI wt_sampleService wt_sampleSite wt_sampleWorker 1 2 3)
qed

subsection \<open>C5\<close>


subsection \<open>C6\<close>

text \<open>
  C6. Each component schema embeds the whole component base: the schemas of services,
  static sites and workers agree with \<open>appSpecComponentBase\<close> on each of its nine keys,
  they hold these keys and their own keys and no other, and every key of their own keeps
  the definition of its literal: the base overwrites none.
\<close>

theorem component_schemas_embed_base:
  "dom appSpecComponentBase =
     {''name'', ''git'', ''github'', ''dockerfile_path'', ''build_command'', ''env'', ''routes'',
      ''source_dir'', ''environment_slug''}
   \<and> schemaOf appSpecServicesSchema |` dom appSpecComponentBase = appSpecComponentBase
   \<and> schemaOf appSpecStaticSiteSchema |` dom appSpecComponentBase = appSpecComponentBase
   \<and> schemaOf appSpecWorkerSchema |` dom appSpecComponentBase = appSpecComponentBase
   \<and> dom (schemaOf appSpecServicesSchema) =
        dom appSpecComponentBase
        \<union> {''run_command'', ''http_port'', ''instance_size_slug'', ''instance_count'', ''health_check''}
   \<and> dom (schemaOf appSpecStaticSiteSchema) =
        dom appSpecComponentBase \<union> {''output_dir'', ''index_document'', ''error_document''}
   \<and> dom (schemaOf appSpecWorkerSchema) =
        dom appSpecComponentBase \<union> {''run_command'', ''instance_size_slug'', ''instance_count''}
   \<and> schemaOf appSpecServicesSchema ''run_command'' = Some (Schema [Type TypeString, Optional True])
   \<and> schemaOf appSpecServicesSchema ''http_port'' = Some (Schema [Type TypeInt, Optional True])
   \<and> schemaOf appSpecServicesSchema ''instance_size_slug''
        = Some (Schema [Type TypeString, Optional True])
   \<and> schemaOf appSpecServicesSchema ''instance_count'' = Some (Schema [Type TypeInt, Optional True])
   \<and> schemaOf appSpecServicesSchema ''health_check''
        = Some (Schema [Type TypeList, Optional True, MaxItems 1,
                        Elem (ElemResource (Resource appSpecHealthCheckSchema))])
   \<and> schemaOf appSpecStaticSiteSchema ''output_dir''
        = Some (Schema [Type TypeString, Optional True,
            Description ''An optional path to where the built assets will be located, relative to the build context. If not set, App Platform will automatically scan for these directory names: `_static`, `dist`, `public`.''])
   \<and> schemaOf appSpecStaticSiteSchema ''index_document''
        = Some (Schema [Type TypeString, Optional True])
   \<and> schemaOf appSpecStaticSiteSchema ''error_document''
        = Some (Schema [Type TypeString, Optional True])
   \<and> schemaOf appSpecWorkerSchema ''run_command'' = Some (Schema [Type TypeString, Optional True])
   \<and> schemaOf appSpecWorkerSchema ''instance_size_slug''
        = Some (Schema [Type TypeString, Optional True])
   \<and> schemaOf appSpecWorkerSchema ''instance_count'' = Some (Schema [Type TypeInt, Optional True])"
proof -
  have r: "schemaOf appSpecServicesSchema |` dom appSpecComponentBase = appSpecComponentBase"
    "schemaOf appSpecStaticSiteSchema |` dom appSpecComponentBase = appSpecComponentBase"
    "schemaOf appSpecWorkerSchema |` dom appSpecComponentBase = appSpecComponentBase"
    by (simp_all add: appSpecServicesSchema_def appSpecStaticSiteSchema_def
        appSpecWorkerSchema_def Let_def map_add_restrict_dom)
  have d: "dom (schemaOf appSpecServicesSchema) =
        dom appSpecComponentBase
        \<union> {''run_command'', ''http_port'', ''instance_size_slug'', ''instance_count'', ''health_check''}"
    "dom (schemaOf appSpecStaticSiteSchema) =
        dom appSpecComponentBase \<union> {''output_dir'', ''index_document'', ''error_document''}"
    "dom (schemaOf appSpecWorkerSchema) =
        dom appSpecComponentBase \<union> {''run_command'', ''instance_size_slug'', ''instance_count''}"
    by (auto simp: appSpecServicesSchema_def appSpecStaticSiteSchema_def
        appSpecWorkerSchema_def Let_def)
  have o: "schemaOf appSpecServicesSchema ''run_command'' = Some (Schema [Type TypeString, Optional True])"
    "schemaOf appSpecServicesSchema ''http_port'' = Some (Schema [Type TypeInt, Optional True])"
    "schemaOf appSpecServicesSchema ''instance_size_slug''
        = Some (Schema [Type TypeString, Optional True])"
    "schemaOf appSpecServicesSchema ''instance_count'' = Some (Schema [Type TypeInt, Optional True])"
    "schemaOf appSpecServicesSchema ''health_check''
        = Some (Schema [Type TypeList, Optional True, MaxItems 1,
                        Elem (ElemResource (Resource appSpecHealthCheckSchema))])"
    by (simp_all add: appSpecServicesSchema_def Let_def map_add_def base_misses)
  have p: "schemaOf appSpecStaticSiteSchema ''output_dir''
        = Some (Schema [Type TypeString, Optional True,
            Description ''An optional path to where the built assets will be located, relative to the build context. If not set, App Platform will automatically scan for these directory names: `_static`, `dist`, `public`.''])"
    "schemaOf appSpecStaticSiteSchema ''index_document''
        = Some (Schema [Type TypeString, Optional True])"
    "schemaOf appSpecStaticSiteSchema ''error_document''
        = Some (Schema [Type TypeString, Optional True])"
    by (simp_all add: appSpecStaticSiteSchema_def Let_def map_add_def base_misses)
  have q: "schemaOf appSpecWorkerSchema ''run_command'' = Some (Schema [Type TypeString, Optional True])"
    "schemaOf appSpecWorkerSchema ''instance_size_slug''
        = Some (Schema [Type TypeString, Optional True])"
    "schemaOf appSpecWorkerSchema ''instance_count'' = Some (Schema [Type TypeInt, Optional True])"
    by (simp_all add: appSpecWorkerSchema_def Let_def map_add_def base_misses)
  show ?thesis
    by (intro conjI dom_appSpecComponentBase r d o p q)
qed

subsection \<open>C7\<close>

text \<open>
  C7. The expand functions validate no value. On well-typed environment-variable maps
  \<open>expandAppEnvs\<close> returns the strings under \<^verbatim>\<open>scope\<close> and \<^verbatim>\<open>type\<close> as they are, and
  \<open>expandAppSpecDatabases\<close> the string under \<^verbatim>\<open>engine\<close>; a map stays well-typed whatever
  strings these keys hold, so this covers every string, also those outside the lists
  that \<^verbatim>\<open>ValidateFunc\<close> declares in the schema for \<^verbatim>\<open>scope\<close>, \<^verbatim>\<open>type\<close> and \<^verbatim>\<open>engine\<close>.
\<close>

theorem expand_copies_without_validation:
  "(list_all (isMapOf wt_env) config \<longrightarrow>
      expandAppEnvs config =
        Inr (Some (map (\<lambda>e. \<lparr>env_Value = str (index (attrsOf e) ''value''),
                              env_Scope = str (index (attrsOf e) ''scope''),
                              env_Key = str (index (attrsOf e) ''key''),
                              env_Type = str (index (attrsOf e) ''type'')\<rparr>) config)))
   \<and> (list_all (isMapOf wt_database) dbs \<longrightarrow>
      (\<exists>ds. expandAppSpecDatabases dbs = Inr (Some ds)
          \<and> map db_Engine ds = map (\<lambda>d. str (index (attrsOf d) ''engine'')) dbs))
   \<and> (wt_env m \<longrightarrow> wt_env (m(''scope'' \<mapsto> VString scope, ''type'' \<mapsto> VString type)))
   \<and> (wt_database d \<longrightarrow> wt_database (d(''engine'' \<mapsto> VString engine)))
   \<and> schemaOf appSpecEnvSchema ''scope'' =
        Some (Schema [Type TypeString, Optional True, Default (VString ''RUN_AND_BUILD_TIME''),
                      ValidateFunc (StringInSlice
                        [''UNSET'', ''RUN_TIME'', ''BUILD_TIME'', ''RUN_AND_BUILD_TIME''] False)])
   \<and> schemaOf appSpecEnvSchema ''type'' =
        Some (Schema [Type TypeString, Optional True, Default (VString ''GENERAL''),
                      ValidateFunc (StringInSlice [''GENERAL'', ''SECRET''] False)])
   \<and> schemaOf appSpecDatabaseSchema ''engine'' =
        Some (Schema [Type TypeString, Optional True,
                      ValidateFunc (StringInSlice [''UNSET'', ''MYSQL'', ''PG'', ''REDIS''] False)])"
proof -
  have 1: "list_all (isMapOf wt_env) config \<longrightarrow>
      expandAppEnvs config =
        Inr (Some (map (\<lambda>e. \<lparr>env_Value = str (index (attrsOf e) ''value''),
                              env_Scope = str (index (attrsOf e) ''scope''),
                              env_Key = str (index (attrsOf e) ''key''),
                              env_Type = str (index (attrsOf e) ''type'')\<rparr>) config))"
    by (simp add: expandAppEnvs_wt envsOf_def envOf_def)
  have 2: "list_all (isMapOf wt_database) dbs \<longrightarrow>
      (\<exists>ds. expandAppSpecDatabases dbs = Inr (Some ds)
          \<and> map db_Engine ds = map (\<lambda>d. str (index (attrsOf d) ''engine'')) dbs)"
    by (simp add: expandAppSpecDatabases_wt databaseOf_def comp_def)
  have 3: "wt_env m \<longrightarrow> wt_env (m(''scope'' \<mapsto> VString scope, ''type'' \<mapsto> VString type))"
    "wt_database d \<longrightarrow> wt_database (d(''engine'' \<mapsto> VString engine))"
    by (simp_all add: wt_env_any_strings wt_database_any_engine)
  have 4: "schemaOf appSpecEnvSchema ''scope'' =
        Some (Schema [Type TypeString, Optional True, Default (VString ''RUN_AND_BUILD_TIME''),
                      ValidateFunc (StringInSlice
                        [''UNSET'', ''RUN_TIME'', ''BUILD_TIME'', ''RUN_AND_BUILD_TIME''] False)])"
    "schemaOf appSpecEnvSchema ''type'' =
        Some (Schema [Type TypeString, Optional True, Default (VString ''GENERAL''),
                      ValidateFunc (StringInSlice [''GENERAL'', ''SECRET''] False)])"
    "schemaOf appSpecDatabaseSchema ''engine'' =
        Some (Schema [Type TypeString, Optional True,
                      ValidateFunc (StringInSlice [''UNSET'', ''MYSQL'', ''PG'', ''REDIS''] False)])"
    by (simp_all add: appSpecEnvSchema_def appSpecDatabaseSchema_def)
  show ?thesis
    by (intro conjI 1 2 3 4)
qed

text \<open>
  A scope, a type and an engine outside the declared lists are expanded as they are.
\<close>

theorem expand_copies_without_validation_witness:
  "list_all (isMapOf wt_env) [VMap oddEnv] \<and> list_all (isMapOf wt_database) [VMap oddDatabase]
   \<and> wt_env sampleEnv \<and> wt_database sampleDatabase
   \<and> ''AT_NO_TIME'' \<notin> set [''UNSET'', ''RUN_TIME'', ''BUILD_TIME'', ''RUN_AND_BUILD_TIME'']
   \<and> ''PUBLIC'' \<notin> set [''GENERAL'', ''SECRET'']
   \<and> ''ORACLE'' \<notin> set [''UNSET'', ''MYSQL'', ''PG'', ''REDIS'']
   \<and> expandAppEnvs [VMap oddEnv] =
        Inr (Some [\<lparr>env_Value = ''1'', env_Scope = ''AT_NO_TIME'', env_Key = ''DEBUG'',
                    env_Type = ''PUBLIC''\<rparr>])
   \<and> (\<exists>ds. expandAppSpecDatabases [VMap oddDatabase] = Inr (Some ds) \<and> map db_Engine ds = [''ORACLE''])
   \<and> wt_env (sampleEnv(''scope'' \<mapsto> VString ''AT_NO_TIME'', ''type'' \<mapsto> VString ''PUBLIC''))
   \<and> wt_database (sampleDatabase(''engine'' \<mapsto> VString ''ORACLE''))"
proof -
  have h: "list_all (isMapOf wt_env) [VMap oddEnv]" "list_all (isMapOf wt_database) [VMap oddDatabase]"
    by (simp_all add: wt_oddEnv wt_oddDatabase)
  have v: "str (index oddEnv ''value'') = ''1''" "str (index oddEnv ''scope'') = ''AT_NO_TIME''"
    "str (index oddEnv ''key'') = ''DEBUG''" "str (index oddEnv ''type'') = ''PUBLIC''"
    "str (index oddDatabase ''engine'') = ''ORACLE''"
    by (simp_all add: oddEnv_def oddDatabase_def index_def)
  note t = expand_copies_without_validation [of "[VMap oddEnv]" "[VMap oddDatabase]" sampleEnv
      "''AT_NO_TIME''" "''PUBLIC''" sampleDatabase "''ORACLE''"]
  from t h wt_sampleEnv wt_sampleDatabase show ?thesis
    by (simp add: v)
qed

subsection \<open>C8\<close>

text \<open>
  C8. Nil and empty inputs at the top-level mapping boundary: \<open>expandAppSpec\<close> returns the
  zero-valued \<open>AppSpec\<close> when the configuration list is empty or its first element is
  nil; \<open>flattenAppSpec\<close> returns the empty list for the nil spec and a list of length one
  otherwise; \<open>flattenAppGitHubSourceSpec\<close>, \<open>flattenAppGitSourceSpec\<close> and
  \<open>flattenAppHealthCheck\<close> return the empty list for nil and a singleton list otherwise.
\<close>

theorem nil_and_empty_inputs:
  "expandAppSpec [] = Inr zeroAppSpec
   \<and> expandAppSpec (VNil # rest) = Inr zeroAppSpec
   \<and> zeroAppSpec = \<lparr>Name = [], Region = [], Domains = None, Services = None,
                     StaticSites = None, Workers = None, Databases = None\<rparr>
   \<and> flattenAppSpec hs hr None = []
   \<and> length (flattenAppSpec hs hr (Some spec)) = 1
   \<and> flattenAppGitHubSourceSpec None = []
   \<and> length (flattenAppGitHubSourceSpec (Some github)) = 1
   \<and> flattenAppGitSourceSpec None = []
   \<and> length (flattenAppGitSourceSpec (Some git)) = 1
   \<and> flattenAppHealthCheck None = []
   \<and> length (flattenAppHealthCheck (Some check)) = 1"
  by (simp add: expandAppSpec_def zeroAppSpec_def flattenAppSpec_def Let_def
      flattenAppGitHubSourceSpec_def flattenAppGitSourceSpec_def flattenAppHealthCheck_def)

subsection \<open>C9\<close>

text \<open>
  C9. \<open>expandAppGitHubSourceSpec\<close>, \<open>expandAppGitSourceSpec\<close> and \<open>expandAppHealthCheck\<close>
  read \<^verbatim>\<open>config[0]\<close> unguarded: on the empty list they panic with an index out of range.
  On a non-empty list the access is in bounds, and with a well-typed map at index 0 they
  return. Their callers test \<^verbatim>\<open>len > 0\<close> first: no configuration makes
  \<open>expandAppSpecServices\<close>, \<open>expandAppSpecStaticSites\<close>, \<open>expandAppSpecWorkers\<close> or
  \<open>expandAppSpec\<close> panic with an index out of range.
\<close>

theorem expand_index_in_bounds:
  "expandAppGitHubSourceSpec [] = Inl IndexOutOfRange
   \<and> expandAppGitSourceSpec [] = Inl IndexOutOfRange
   \<and> expandAppHealthCheck [] = Inl IndexOutOfRange
   \<and> (0 < length config \<longrightarrow>
        expandAppGitHubSourceSpec config \<noteq> Inl IndexOutOfRange
        \<and> expandAppGitSourceSpec config \<noteq> Inl IndexOutOfRange
        \<and> expandAppHealthCheck config \<noteq> Inl IndexOutOfRange)
   \<and> (wt_github m \<longrightarrow> (\<exists>g. expandAppGitHubSourceSpec (VMap m # rest) = Inr g))
   \<and> (wt_git m \<longrightarrow> (\<exists>g. expandAppGitSourceSpec (VMap m # rest) = Inr g))
   \<and> (wt_path m \<longrightarrow> (\<exists>c. expandAppHealthCheck (VMap m # rest) = Inr c))
   \<and> expandAppSpecServices components \<noteq> Inl IndexOutOfRange
   \<and> expandAppSpecStaticSites components \<noteq> Inl IndexOutOfRange
   \<and> expandAppSpecWorkers components \<noteq> Inl IndexOutOfRange
   \<and> expandAppSpec appConfig \<noteq> Inl IndexOutOfRange"
proof -
  have 1: "expandAppGitHubSourceSpec [] = Inl IndexOutOfRange"
    "expandAppGitSourceSpec [] = Inl IndexOutOfRange"
    "expandAppHealthCheck [] = Inl IndexOutOfRange"
    by (simp_all add: expandAppGitHubSourceSpec_def expandAppGitSourceSpec_def
        expandAppHealthCheck_def)
  have 2: "0 < length config \<longrightarrow>
        expandAppGitHubSourceSpec config \<noteq> Inl IndexOutOfRange
        \<and> expandAppGitSourceSpec config \<noteq> Inl IndexOutOfRange
        \<and> expandAppHealthCheck config \<noteq> Inl IndexOutOfRange"
    using inBounds_expandAppGitHubSourceSpec [of config]
      inBounds_expandAppGitSourceSpec [of config] inBounds_expandAppHealthCheck [of config]
    by (simp add: inBounds_def)
  have 3: "wt_github m \<longrightarrow> (\<exists>g. expandAppGitHubSourceSpec (VMap m # rest) = Inr g)"
    "wt_git m \<longrightarrow> (\<exists>g. expandAppGitSourceSpec (VMap m # rest) = Inr g)"
    "wt_path m \<longrightarrow> (\<exists>c. expandAppHealthCheck (VMap m # rest) = Inr c)"
    by (simp_all add: expandAppGitHubSourceSpec_def expandAppGitSourceSpec_def
        expandAppHealthCheck_def wt_github_def wt_git_def wt_path_def hasString_assert
        hasBool_assert)
  have 4: "expandAppSpecServices components \<noteq> Inl IndexOutOfRange"
    "expandAppSpecStaticSites components \<noteq> Inl IndexOutOfRange"
    "expandAppSpecWorkers components \<noteq> Inl IndexOutOfRange"
    "expandAppSpec appConfig \<noteq> Inl IndexOutOfRange"
    using inBounds_expandAppSpecServices [of components]
      inBounds_expandAppSpecStaticSites [of components]
      inBounds_expandAppSpecWorkers [of components] inBounds_expandAppSpec [of appConfig]
    by (simp_all add: inBounds_def)
  show ?thesis
    by (intro conjI 1 2 3 4)
qed

text \<open>The blocks of the sample configuration are non-empty lists of well-typed maps.\<close>

theorem expand_index_in_bounds_witness:
  "0 < length [VMap sampleGitHub] \<and> wt_github sampleGitHub \<and> wt_git sampleGit
   \<and> wt_path (Map.empty(''path'' \<mapsto> VString ''/health''))
   \<and> expandAppGitHubSourceSpec [VMap sampleGitHub] \<noteq> Inl IndexOutOfRange
   \<and> (\<exists>g. expandAppGitHubSourceSpec [VMap sampleGitHub] = Inr g)
   \<and> (\<exists>g. expandAppGitSourceSpec [VMap sampleGit] = Inr g)
   \<and> (\<exists>c. expandAppHealthCheck [VMap (Map.empty(''path'' \<mapsto> VString ''/health''))] = Inr c)"
proof -
  have p: "wt_path (Map.empty(''path'' \<mapsto> VString ''/health''))"
    by (simp add: wt_path_def hasString_def)
  show ?thesis
    using expand_index_in_bounds [of "[VMap sampleGitHub]" sampleGitHub "[]"]
      expand_index_in_bounds [of "[VMap sampleGit]" sampleGit "[]"]
      expand_index_in_bounds [of "[VMap sampleGit]" "Map.empty(''path'' \<mapsto> VString ''/health'')" "[]"]
      wt_sampleGitHub wt_sampleGit p
    by simp
qed

subsection \<open>C10\<close>

text \<open>
  C10. The sweeper deletes nothing outside the scope of the tests: every bucket name
  \<^verbatim>\<open>deleteAllS3ObjectVersions\<close> is called on, in any run of \<^verbatim>\<open>testSweepS3BucketObjects\<close>,
  starts with one of the six prefixes, has the region being swept as its resolved region,
  and is the name of a bucket of the listing. A bucket that fails one of the tests gets
  no deletion call.
\<close>

theorem sweeper_deletes_in_scope_only:
  "\<forall>bucketName \<in> set (fst (testSweepS3BucketObjects env region)).
      (prefix ''mybucket.'' bucketName \<or> prefix ''mylogs.'' bucketName
       \<or> prefix ''tf-acc'' bucketName \<or> prefix ''tf-object-test'' bucketName
       \<or> prefix ''tf-test'' bucketName \<or> prefix ''tf-emr-bootstrap'' bucketName)
      \<and> testS3BucketRegion env bucketName = (region, None)
      \<and> (\<exists>bucket \<in> set (fst (ListBuckets env)). StringValue (bucket_Name bucket) = bucketName)"
proof
  fix bucketName
  assume "bucketName \<in> set (fst (testSweepS3BucketObjects env region))"
  with sweep_calls [of env region]
  have "bucketName \<in> set (filter (inScope env region)
          (map (\<lambda>b. StringValue (bucket_Name b)) (fst (ListBuckets env))))"
    by (meson set_mono_prefix subsetD)
  then show "(prefix ''mybucket.'' bucketName \<or> prefix ''mylogs.'' bucketName
       \<or> prefix ''tf-acc'' bucketName \<or> prefix ''tf-object-test'' bucketName
       \<or> prefix ''tf-test'' bucketName \<or> prefix ''tf-emr-bootstrap'' bucketName)
      \<and> testS3BucketRegion env bucketName = (region, None)
      \<and> (\<exists>bucket \<in> set (fst (ListBuckets env)). StringValue (bucket_Name bucket) = bucketName)"
    by (auto simp: inScope_def)
qed

text \<open>
  Of the three sample buckets the sweep of \<^verbatim>\<open>nyc3\<close> deletes the one test bucket of that
  region.
\<close>

theorem sweeper_deletes_in_scope_only_witness:
  "''tf-acc-1'' \<in> set (fst (testSweepS3BucketObjects sampleSweepEnv ''nyc3''))
   \<and> fst (testSweepS3BucketObjects sampleSweepEnv ''nyc3'') = [''tf-acc-1'']
   \<and> prefix ''tf-acc'' ''tf-acc-1''
   \<and> testS3BucketRegion sampleSweepEnv ''tf-acc-1'' = (''nyc3'', None)"
proof -
  have m: "''tf-acc-1'' \<in> set (fst (testSweepS3BucketObjects sampleSweepEnv ''nyc3''))"
    by (simp add: sample_sweep)
  from sweeper_deletes_in_scope_only [of sampleSweepEnv "''nyc3''"] m
  have "testS3BucketRegion sampleSweepEnv ''tf-acc-1'' = (''nyc3'', None)"
    by blast
  with m show ?thesis
    by (simp add: sample_sweep)
qed

end
